theory Spec2Isabelle
  imports Main "HOL-Library.AList" "HOL-Library.Multiset"
begin

section \<open>JavaScript values used by the sources\<close>

text \<open>
  Strings are lists of code units below 256. \<open>String.prototype.trim\<close> removes white
  space and line terminators at both ends; in this range these are the code units
  9 to 13, 32 and 160.
\<close>

definition is_js_space :: "char \<Rightarrow> bool" where
  "is_js_space c = (of_char c \<in> {9, 10, 11, 12, 13, 32, 160 :: nat})"

definition trim :: "string \<Rightarrow> string" where
  "trim s = rev (dropWhile is_js_space (rev (dropWhile is_js_space s)))"

text \<open>\<open>String.prototype.toLowerCase\<close> on the letters A to Z.\<close>

definition lower_char :: "char \<Rightarrow> char" where
  "lower_char c =
     (if 65 \<le> (of_char c :: nat) \<and> (of_char c :: nat) \<le> 90
      then char_of (of_char c + 32 :: nat) else c)"

definition toLowerCase :: "string \<Rightarrow> string" where
  "toLowerCase s = map lower_char s"

text \<open>Truthiness of an optional string: \<open>undefined\<close> and the empty string are falsy.\<close>

fun truthy_str :: "string option \<Rightarrow> bool" where
  "truthy_str None = False"
| "truthy_str (Some s) = (s \<noteq> [])"

text \<open>
  Values of type \<open>unknown\<close> or \<open>any\<close> that the code inspects structurally. Numbers
  are integers: token counts and epoch milliseconds; the rounding of IEEE doubles is not
  modelled.
\<close>

datatype json =
    JNull
  | JBool bool
  | JNum int
  | JStr string
  | JArr "json list"
  | JObj "(string \<times> json) list"

text \<open>Property access \<open>v.k\<close>; \<open>None\<close> is \<open>undefined\<close>.\<close>

fun json_get :: "json \<Rightarrow> string \<Rightarrow> json option" where
  "json_get (JObj kvs) k = map_of kvs k"
| "json_get _ k = None"

text \<open>Optional chaining \<open>v?.k\<close> on a value that may itself be \<open>undefined\<close>.\<close>

fun json_get_opt :: "json option \<Rightarrow> string \<Rightarrow> json option" where
  "json_get_opt None k = None"
| "json_get_opt (Some v) k = json_get v k"

fun js_truthy :: "json \<Rightarrow> bool" where
  "js_truthy JNull = False"
| "js_truthy (JBool b) = b"
| "js_truthy (JNum n) = (n \<noteq> 0)"
| "js_truthy (JStr s) = (s \<noteq> [])"
| "js_truthy (JArr _) = True"
| "js_truthy (JObj _) = True"

text \<open>Truthiness of a value that may be \<open>undefined\<close>.\<close>

fun truthy_json :: "json option \<Rightarrow> bool" where
  "truthy_json None = False"
| "truthy_json (Some v) = js_truthy v"

text \<open>Decimal rendering of an array index inside a template literal.\<close>

fun digits :: "nat \<Rightarrow> string" where
  "digits n =
     (if n < 10 then [char_of (48 + n)]
      else digits (n div 10) @ [char_of (48 + n mod 10)])"

declare digits.simps [simp del]

section \<open>The unified message (types/claude, as far as the sources read it)\<close>

record ContentBlock =
  b_type :: "string option"
  b_text :: "string option"
  b_id :: "string option"
  b_name :: "string option"
  b_input :: "json option"
  b_tool_use_id :: "string option"
  b_content :: "string option"
  b_is_error :: "bool option"

datatype content_value =
    ContentString string
  | ContentArray "ContentBlock list"

record MessageBody =
  content :: "content_value option"
  role :: "string option"
  body_id :: "string option"
  body_timestamp :: "string option"
  body_model :: "string option"
  body_usage :: "json option"

record CodexMetadata =
  codexItemType :: "string option"
  codex_model :: "string option"
  codex_usage :: "json option"

record GeminiMetadata =
  provider :: "string option"

text \<open>
  The usage payload is of type \<open>any\<close> in the sources; it is a \<open>json\<close> value here.
\<close>

record ClaudeStreamMessage =
  mtype :: "string option"
  subtype :: "string option"
  message :: "MessageBody option"
  msg_id :: "string option"
  uuid :: "string option"
  timestamp :: "string option"
  receivedAt :: "string option"
  sentAt :: "string option"
  engine :: "string option"
  model :: "string option"
  usage :: "json option"
  parent_tool_use_id :: "string option"
  isSidechain :: "bool option"
  codexMetadata :: "CodexMetadata option"
  geminiMetadata :: "GeminiMetadata option"

text \<open>\<open>message.message?.content\<close>\<close>

definition message_content :: "ClaudeStreamMessage \<Rightarrow> content_value option" where
  "message_content m = (case message m of None \<Rightarrow> None | Some b \<Rightarrow> content b)"

section \<open>Billing ledger (sessionCost)\<close>

record StandardizedTokenUsage =
  input_tokens :: int
  output_tokens :: int
  cache_creation_tokens :: int
  cache_read_tokens :: int

text \<open>
  \<open>MutableBillingEvent\<close>: a \<open>BillingEvent\<close> with the total token count and the scan
  index. The cost comes from the pricing function, which is not part of the sources; its
  result type is the parameter \<open>'c\<close>.
\<close>

record 'c MutableBillingEvent =
  key :: string
  tokens :: StandardizedTokenUsage
  ev_model :: string
  cost :: 'c
  ev_timestamp :: "string option"
  timestampMs :: "int option"
  ev_message :: "ClaudeStreamMessage"
  totalTokenCount :: int
  order :: nat

definition getEngineType :: "ClaudeStreamMessage \<Rightarrow> string" where
  "getEngineType m =
     (if truthy_str (engine m) then the (engine m)
      else if codexMetadata m \<noteq> None then ''codex''
      else if (case geminiMetadata m of None \<Rightarrow> False
               | Some g \<Rightarrow> provider g = Some ''gemini'') then ''gemini''
      else ''claude'')"

definition calculateTotalTokens :: "StandardizedTokenUsage \<Rightarrow> int" where
  "calculateTotalTokens t =
     input_tokens t + output_tokens t + cache_creation_tokens t + cache_read_tokens t"

text \<open>\<open>typeof s === 'string' && s.trim() !== ''\<close>\<close>

fun nonblank :: "string option \<Rightarrow> bool" where
  "nonblank None = False"
| "nonblank (Some s) = (trim s \<noteq> [])"

definition getBillingKey :: "ClaudeStreamMessage \<Rightarrow> nat \<Rightarrow> string" where
  "getBillingKey m index =
     (let nestedId = (case message m of None \<Rightarrow> None | Some b \<Rightarrow> body_id b) in
      if nonblank nestedId then ''message:'' @ the nestedId
      else if nonblank (msg_id m) then ''message:'' @ the (msg_id m)
      else if nonblank (uuid m) then ''uuid:'' @ the (uuid m)
      else
        let ts = (case timestamp m of Some t \<Rightarrow> Some t | None \<Rightarrow> receivedAt m) in
        if nonblank ts then ''time:'' @ the ts
        else ''index:'' @ digits index)"

text \<open>
  \<open>Date.parse\<close> is the parameter \<open>dateParse\<close>; \<open>None\<close> stands for \<open>NaN\<close>. The loop
  returns at the first candidate that is a non-blank string and parses.
\<close>

fun firstParsed :: "(string \<Rightarrow> int option) \<Rightarrow> string option list \<Rightarrow> string option \<times> int option" where
  "firstParsed dateParse [] = (None, None)"
| "firstParsed dateParse (c # cs) =
     (if \<not> nonblank c then firstParsed dateParse cs
      else (case dateParse (the c) of
              None \<Rightarrow> firstParsed dateParse cs
            | Some parsed \<Rightarrow> (c, Some parsed)))"

definition extractTimestamp ::
  "(string \<Rightarrow> int option) \<Rightarrow> ClaudeStreamMessage \<Rightarrow> string option \<times> int option" where
  "extractTimestamp dateParse m =
     firstParsed dateParse
       [timestamp m, receivedAt m, sentAt m,
        (case message m of None \<Rightarrow> None | Some b \<Rightarrow> body_timestamp b)]"

fun firstNonblank :: "string option list \<Rightarrow> string option" where
  "firstNonblank [] = None"
| "firstNonblank (c # cs) = (if nonblank c then c else firstNonblank cs)"

definition getModelName :: "ClaudeStreamMessage \<Rightarrow> string \<Rightarrow> string" where
  "getModelName m eng =
     (case firstNonblank
             [model m,
              (case message m of None \<Rightarrow> None | Some b \<Rightarrow> body_model b),
              (case codexMetadata m of None \<Rightarrow> None | Some c \<Rightarrow> codex_model c)] of
        Some candidate \<Rightarrow> candidate
      | None \<Rightarrow>
          if eng = ''codex'' then ''codex-mini-latest''
          else if eng = ''gemini'' then ''gemini-2.5-pro''
          else ''claude-sonnet-4.5'')"

text \<open>
  The body of the \<open>forEach\<close> callback of \<open>aggregateSessionCost\<close> up to the lookup in the
  event map: \<open>None\<close> where the callback returns early, otherwise the event it is about to
  offer to the map. \<open>tokenExtractor.extract\<close> and \<open>calculateMessageCost\<close> are not part of
  the sources and are the parameters \<open>extract\<close> and \<open>calculateMessageCost\<close>.
\<close>

definition billingCandidate ::
  "(ClaudeStreamMessage \<Rightarrow> StandardizedTokenUsage) \<Rightarrow>
   (StandardizedTokenUsage \<Rightarrow> string \<Rightarrow> string \<Rightarrow> 'c) \<Rightarrow>
   (string \<Rightarrow> int option) \<Rightarrow>
   ClaudeStreamMessage \<Rightarrow> nat \<Rightarrow> 'c MutableBillingEvent option" where
  "billingCandidate extract calculateMessageCost dateParse m index =
     (let eng = getEngineType m;
          isClaudeBillable = (eng = ''claude'' \<and> mtype m = Some ''assistant'');
          isCodexBillable = (eng = ''codex'' \<and> mtype m = Some ''system'' \<and> truthy_json (usage m));
          isGeminiBillable = (eng = ''gemini'' \<and> mtype m = Some ''result'' \<and> truthy_json (usage m))
      in
      if eng = ''codex'' \<and>
         (case codexMetadata m of None \<Rightarrow> False
          | Some c \<Rightarrow> codexItemType c = Some ''thread_token_usage_updated'')
      then None
      else if \<not> isClaudeBillable \<and> \<not> isCodexBillable \<and> \<not> isGeminiBillable then None
      else
        let tks = extract m; total = calculateTotalTokens tks in
        if total = 0 then None
        else
          let ts = extractTimestamp dateParse m;
              mdl = getModelName m eng
          in Some \<lparr> key = getBillingKey m index,
                    tokens = tks,
                    ev_model = mdl,
                    cost = calculateMessageCost tks mdl eng,
                    ev_timestamp = fst ts,
                    timestampMs = snd ts,
                    ev_message = m,
                    totalTokenCount = total,
                    order = index \<rparr>)"

text \<open>\<open>timestampMs ?? 0\<close>\<close>

definition ms0 :: "'c MutableBillingEvent \<Rightarrow> int" where
  "ms0 e = (case timestampMs e of None \<Rightarrow> 0 | Some t \<Rightarrow> t)"

text \<open>
  The event map is a JavaScript \<open>Map\<close>: iteration follows the order in which keys were
  first inserted, and setting an existing key replaces its value in place. An association
  list under \<open>AList.update\<close> behaves so.
\<close>

definition supersede ::
  "'c MutableBillingEvent \<Rightarrow> (string \<times> 'c MutableBillingEvent) list \<Rightarrow>
   (string \<times> 'c MutableBillingEvent) list" where
  "supersede ev eventMap =
     (case map_of eventMap (key ev) of
        None \<Rightarrow> AList.update (key ev) ev eventMap
      | Some existing \<Rightarrow>
          if totalTokenCount ev > totalTokenCount existing \<or>
             (totalTokenCount ev = totalTokenCount existing \<and> ms0 ev \<ge> ms0 existing)
          then AList.update (key ev) ev eventMap
          else eventMap)"

definition scanMessage ::
  "(ClaudeStreamMessage \<Rightarrow> StandardizedTokenUsage) \<Rightarrow>
   (StandardizedTokenUsage \<Rightarrow> string \<Rightarrow> string \<Rightarrow> 'c) \<Rightarrow>
   (string \<Rightarrow> int option) \<Rightarrow>
   nat \<times> ClaudeStreamMessage \<Rightarrow>
   (string \<times> 'c MutableBillingEvent) list \<Rightarrow>
   (string \<times> 'c MutableBillingEvent) list" where
  "scanMessage extract calculateMessageCost dateParse im eventMap =
     (case billingCandidate extract calculateMessageCost dateParse (snd im) (fst im) of
        None \<Rightarrow> eventMap
      | Some ev \<Rightarrow> supersede ev eventMap)"

definition scanMessages ::
  "(ClaudeStreamMessage \<Rightarrow> StandardizedTokenUsage) \<Rightarrow>
   (StandardizedTokenUsage \<Rightarrow> string \<Rightarrow> string \<Rightarrow> 'c) \<Rightarrow>
   (string \<Rightarrow> int option) \<Rightarrow>
   ClaudeStreamMessage list \<Rightarrow> (string \<times> 'c MutableBillingEvent) list" where
  "scanMessages extract calculateMessageCost dateParse messages =
     fold (scanMessage extract calculateMessageCost dateParse) (enumerate 0 messages) []"

text \<open>The comparator handed to \<open>sort\<close>.\<close>

definition compareEvents ::
  "'c MutableBillingEvent \<Rightarrow> 'c MutableBillingEvent \<Rightarrow> int" where
  "compareEvents a b =
     (if timestampMs a \<noteq> None \<and> timestampMs b \<noteq> None \<and> timestampMs a \<noteq> timestampMs b
      then the (timestampMs a) - the (timestampMs b)
      else if timestampMs a \<noteq> None then - 1
      else if timestampMs b \<noteq> None then 1
      else int (order a) - int (order b))"

text \<open>
  \<open>Array.prototype.sort\<close> with a comparator, modelled as insertion sort: each element is
  placed before the first element of the sorted prefix that the comparator puts it
  strictly before.
\<close>

fun insertBy :: "('a \<Rightarrow> 'a \<Rightarrow> int) \<Rightarrow> 'a \<Rightarrow> 'a list \<Rightarrow> 'a list" where
  "insertBy cmp x [] = [x]"
| "insertBy cmp x (y # ys) = (if cmp x y < 0 then x # y # ys else y # insertBy cmp x ys)"

definition sortBy :: "('a \<Rightarrow> 'a \<Rightarrow> int) \<Rightarrow> 'a list \<Rightarrow> 'a list" where
  "sortBy cmp xs = foldl (\<lambda>acc x. insertBy cmp x acc) [] xs"

text \<open>The \<open>events\<close> component of the result of \<open>aggregateSessionCost\<close>.\<close>

definition aggregateSessionCost_events ::
  "(ClaudeStreamMessage \<Rightarrow> StandardizedTokenUsage) \<Rightarrow>
   (StandardizedTokenUsage \<Rightarrow> string \<Rightarrow> string \<Rightarrow> 'c) \<Rightarrow>
   (string \<Rightarrow> int option) \<Rightarrow>
   ClaudeStreamMessage list \<Rightarrow> 'c MutableBillingEvent list" where
  "aggregateSessionCost_events extract calculateMessageCost dateParse messages =
     sortBy compareEvents
       (map snd (scanMessages extract calculateMessageCost dateParse messages))"

section \<open>Message grouping (subagentGrouping)\<close>

record SubagentGroup =
  group_id :: string
  taskMessage :: ClaudeStreamMessage
  taskToolUseId :: string
  subagentMessages :: "ClaudeStreamMessage list"
  startIndex :: nat
  endIndex :: nat
  subagentType :: "json option"

datatype MessageGroup =
    Normal ClaudeStreamMessage nat
  | Subagent SubagentGroup
  | Aggregated "ClaudeStreamMessage list" nat

text \<open>\<open>item.type === 'tool_use' && item.name?.toLowerCase() === 'task'\<close>\<close>

definition isTaskToolUse :: "ContentBlock \<Rightarrow> bool" where
  "isTaskToolUse item =
     (b_type item = Some ''tool_use'' \<and>
      (case b_name item of None \<Rightarrow> False | Some n \<Rightarrow> toLowerCase n = ''task''))"

definition hasTaskToolCall :: "ClaudeStreamMessage \<Rightarrow> bool" where
  "hasTaskToolCall m =
     (if mtype m \<noteq> Some ''assistant'' then False
      else (case message_content m of
              Some (ContentArray items) \<Rightarrow> list_ex isTaskToolUse items
            | _ \<Rightarrow> False))"

text \<open>The content array of a message that passed \<open>hasTaskToolCall\<close>.\<close>

definition contentItems :: "ClaudeStreamMessage \<Rightarrow> ContentBlock list" where
  "contentItems m = (case message_content m of Some (ContentArray items) \<Rightarrow> items | _ \<Rightarrow> [])"

definition extractTaskToolUseIds :: "ClaudeStreamMessage \<Rightarrow> string list" where
  "extractTaskToolUseIds m =
     (if \<not> hasTaskToolCall m then []
      else map the (filter truthy_str (map b_id (filter isTaskToolUse (contentItems m)))))"

text \<open>
  \<open>extractTaskToolDetails\<close>: a \<open>Map\<close> from tool id to the \<open>subagent_type\<close> of the call's
  input (\<open>None\<close> where \<open>item.input?.subagent_type\<close> is \<open>undefined\<close>).
\<close>

definition extractTaskToolDetails :: "ClaudeStreamMessage \<Rightarrow> (string \<times> json option) list" where
  "extractTaskToolDetails m =
     (if \<not> hasTaskToolCall m then []
      else fold (\<lambda>item details.
                   if truthy_str (b_id item)
                   then AList.update (the (b_id item))
                          (json_get_opt (b_input item) ''subagent_type'') details
                   else details)
             (filter isTaskToolUse (contentItems m)) [])"

definition isSubagentMessage :: "ClaudeStreamMessage \<Rightarrow> bool" where
  "isSubagentMessage m =
     (let hasParent = truthy_str (parent_tool_use_id m);
          sidechain = (isSidechain m = Some True)
      in hasParent \<or> sidechain)"

text \<open>\<open>parent_tool_use_id || null\<close>; \<open>None\<close> is \<open>null\<close>.\<close>

definition getParentToolUseId :: "ClaudeStreamMessage \<Rightarrow> string option" where
  "getParentToolUseId m =
     (if truthy_str (parent_tool_use_id m) then parent_tool_use_id m else None)"

datatype technical = Tool | Thinking

definition getTechnicalMessageType :: "ClaudeStreamMessage \<Rightarrow> technical option" where
  "getTechnicalMessageType m =
     (if mtype m = Some ''thinking'' then Some Thinking
      else if mtype m \<noteq> Some ''assistant'' then None
      else (case message_content m of
              Some (ContentArray items) \<Rightarrow>
                (let hasThinking = list_ex (\<lambda>item. b_type item = Some ''thinking'') items;
                     hasTool = list_ex (\<lambda>item. b_type item = Some ''tool_use'' \<or>
                                               b_type item = Some ''tool_result'') items;
                     hasText = list_ex (\<lambda>item. b_type item = Some ''text'' \<and>
                                               truthy_str (b_text item) \<and>
                                               length (trim (the (b_text item))) > 0) items
                 in if hasText then None
                    else if hasThinking \<and> hasTool then None
                    else if hasThinking then Some Thinking
                    else if hasTool then Some Tool
                    else None)
            | _ \<Rightarrow> None))"

subsection \<open>First pass: the Task tool calls\<close>

record TaskMaps =
  taskToolUseMap :: "(string \<times> ClaudeStreamMessage \<times> nat) list"
  indexToTaskIds :: "(nat \<times> string list) list"
  taskSubagentTypes :: "(string \<times> json) list"

definition recordTask ::
  "ClaudeStreamMessage \<Rightarrow> nat \<Rightarrow> (string \<times> json option) list \<Rightarrow> string \<Rightarrow> TaskMaps \<Rightarrow> TaskMaps" where
  "recordTask m index details taskId st =
     (let st1 = st\<lparr> taskToolUseMap := AList.update taskId (m, index) (taskToolUseMap st) \<rparr> in
      case map_of details taskId of
        Some (Some ty) \<Rightarrow>
          if js_truthy ty
          then st1\<lparr> taskSubagentTypes := AList.update taskId ty (taskSubagentTypes st1) \<rparr>
          else st1
      | _ \<Rightarrow> st1)"

definition identifyTasks :: "nat \<times> ClaudeStreamMessage \<Rightarrow> TaskMaps \<Rightarrow> TaskMaps" where
  "identifyTasks im st =
     (let taskIds = extractTaskToolUseIds (snd im) in
      if length taskIds > 0
      then fold (recordTask (snd im) (fst im) (extractTaskToolDetails (snd im))) taskIds
             (st\<lparr> indexToTaskIds := AList.update (fst im) taskIds (indexToTaskIds st) \<rparr>)
      else st)"

definition firstPass :: "ClaudeStreamMessage list \<Rightarrow> TaskMaps" where
  "firstPass messages =
     fold identifyTasks (enumerate 0 messages)
       \<lparr> taskToolUseMap = [], indexToTaskIds = [], taskSubagentTypes = [] \<rparr>"

subsection \<open>Second pass: the messages of each Task\<close>

text \<open>The \<open>for\<close> loop over \<open>taskInfo.index + 1 .. messages.length - 1\<close>: the matching
  messages with their indices.\<close>

definition attributed :: "ClaudeStreamMessage list \<Rightarrow> string \<Rightarrow> nat \<Rightarrow> (nat \<times> ClaudeStreamMessage) list" where
  "attributed messages taskId index =
     filter (\<lambda>im. getParentToolUseId (snd im) = Some taskId)
       (enumerate (index + 1) (drop (index + 1) messages))"

definition collectGroup ::
  "ClaudeStreamMessage list \<Rightarrow> (string \<times> json) list \<Rightarrow>
   string \<times> ClaudeStreamMessage \<times> nat \<Rightarrow>
   (string \<times> SubagentGroup) list \<Rightarrow> (string \<times> SubagentGroup) list" where
  "collectGroup messages types entry groups =
     (let taskId = fst entry; taskInfo = snd entry;
          found = attributed messages taskId (snd taskInfo);
          maxIndex = fold (\<lambda>im mx. max mx (fst im)) found (snd taskInfo)
      in if length found > 0
         then AList.update taskId
                \<lparr> group_id = taskId,
                  taskMessage = fst taskInfo,
                  taskToolUseId = taskId,
                  subagentMessages = map snd found,
                  startIndex = snd taskInfo,
                  endIndex = maxIndex,
                  subagentType = map_of types taskId \<rparr> groups
         else groups)"

definition secondPass :: "ClaudeStreamMessage list \<Rightarrow> TaskMaps \<Rightarrow> (string \<times> SubagentGroup) list" where
  "secondPass messages st =
     fold (collectGroup messages (taskSubagentTypes st)) (taskToolUseMap st) []"

text \<open>\<open>processedIndices\<close>: the indices of the messages whose parent id has a group.\<close>

definition isProcessed :: "(string \<times> SubagentGroup) list \<Rightarrow> ClaudeStreamMessage \<Rightarrow> bool" where
  "isProcessed groups m =
     (case getParentToolUseId m of
        None \<Rightarrow> False
      | Some parentId \<Rightarrow> map_of groups parentId \<noteq> None)"

definition processedIndices ::
  "ClaudeStreamMessage list \<Rightarrow> (string \<times> SubagentGroup) list \<Rightarrow> nat list" where
  "processedIndices messages groups =
     map fst (filter (\<lambda>im. isProcessed groups (snd im)) (enumerate 0 messages))"

subsection \<open>Third pass: the intermediate groups\<close>

text \<open>State: \<open>addedTaskGroups\<close> and \<open>intermediateGroups\<close>.\<close>

definition addTaskGroup ::
  "(string \<times> SubagentGroup) list \<Rightarrow> string \<Rightarrow>
   string list \<times> MessageGroup list \<Rightarrow> string list \<times> MessageGroup list" where
  "addTaskGroup groups taskId st =
     (case map_of groups taskId of
        Some g \<Rightarrow>
          if taskId \<notin> set (fst st) then (fst st @ [taskId], snd st @ [Subagent g]) else st
      | None \<Rightarrow> st)"

definition buildIntermediate ::
  "nat list \<Rightarrow> (nat \<times> string list) list \<Rightarrow> (string \<times> SubagentGroup) list \<Rightarrow>
   nat \<times> ClaudeStreamMessage \<Rightarrow>
   string list \<times> MessageGroup list \<Rightarrow> string list \<times> MessageGroup list" where
  "buildIntermediate processed idxTasks groups im st =
     (if fst im \<in> set processed then st
      else (case map_of idxTasks (fst im) of
              Some taskIds \<Rightarrow>
                if length taskIds > 0
                then (let st1 = fold (addTaskGroup groups) taskIds st;
                          hasAnySubagentGroup = list_ex (\<lambda>i. map_of groups i \<noteq> None) taskIds
                      in if \<not> hasAnySubagentGroup
                         then (fst st1, snd st1 @ [Normal (snd im) (fst im)])
                         else st1)
                else (fst st, snd st @ [Normal (snd im) (fst im)])
            | None \<Rightarrow> (fst st, snd st @ [Normal (snd im) (fst im)])))"

definition thirdPass ::
  "ClaudeStreamMessage list \<Rightarrow> TaskMaps \<Rightarrow> (string \<times> SubagentGroup) list \<Rightarrow> MessageGroup list" where
  "thirdPass messages st groups =
     snd (fold (buildIntermediate (processedIndices messages groups) (indexToTaskIds st) groups)
            (enumerate 0 messages) ([], []))"

subsection \<open>Fourth pass: runs of technical messages\<close>

record Aggregation =
  agg_messages :: "ClaudeStreamMessage list"
  agg_startIndex :: nat
  aggType :: technical

definition closeAggregation :: "Aggregation option \<Rightarrow> MessageGroup list \<Rightarrow> MessageGroup list" where
  "closeAggregation cur finalGroups =
     (case cur of
        None \<Rightarrow> finalGroups
      | Some a \<Rightarrow> finalGroups @ [Aggregated (agg_messages a) (agg_startIndex a)])"

fun mergeTechnical ::
  "MessageGroup \<Rightarrow> MessageGroup list \<times> Aggregation option \<Rightarrow>
   MessageGroup list \<times> Aggregation option" where
  "mergeTechnical (Subagent g) (finalGroups, cur) =
     (closeAggregation cur finalGroups @ [Subagent g], None)"
| "mergeTechnical (Normal msg index) (finalGroups, cur) =
     (case getTechnicalMessageType msg of
        Some msgType \<Rightarrow>
          (case cur of
             Some a \<Rightarrow>
               if aggType a = msgType
               then (finalGroups, Some (a\<lparr> agg_messages := agg_messages a @ [msg] \<rparr>))
               else (finalGroups @ [Aggregated (agg_messages a) (agg_startIndex a)],
                     Some \<lparr> agg_messages = [msg], agg_startIndex = index, aggType = msgType \<rparr>)
           | None \<Rightarrow>
               (finalGroups,
                Some \<lparr> agg_messages = [msg], agg_startIndex = index, aggType = msgType \<rparr>))
      | None \<Rightarrow> (closeAggregation cur finalGroups @ [Normal msg index], None))"
| "mergeTechnical (Aggregated ms index) (finalGroups, cur) =
     (finalGroups @ [Aggregated ms index], cur)"

definition fourthPass :: "MessageGroup list \<Rightarrow> MessageGroup list" where
  "fourthPass intermediateGroups =
     (let st = fold mergeTechnical intermediateGroups ([], None)
      in closeAggregation (snd st) (fst st))"

definition groupMessages :: "ClaudeStreamMessage list \<Rightarrow> MessageGroup list" where
  "groupMessages messages =
     (let st = firstPass messages;
          subagentGroups = secondPass messages st
      in fourthPass (thirdPass messages st subagentGroups))"

definition shouldHideMessage :: "ClaudeStreamMessage \<Rightarrow> MessageGroup list \<Rightarrow> bool" where
  "shouldHideMessage m groups =
     (if isSubagentMessage m
      then (case getParentToolUseId m of
              Some parentId \<Rightarrow>
                list_ex (\<lambda>g. case g of Subagent grp \<Rightarrow> taskToolUseId grp = parentId
                             | _ \<Rightarrow> False) groups
            | None \<Rightarrow> False)
      else False)"

section \<open>Gemini history conversion (geminiConverter)\<close>

text \<open>
  \<open>Number(value)\<close> on strings is the parameter \<open>num\<close>; \<open>None\<close> stands for a result
  that is not finite.
\<close>

definition toNumber :: "(string \<Rightarrow> int option) \<Rightarrow> json option \<Rightarrow> int option" where
  "toNumber num v =
     (case v of
        Some (JNum n) \<Rightarrow> Some n
      | Some (JStr s) \<Rightarrow> (if trim s \<noteq> [] then num s else None)
      | _ \<Rightarrow> None)"

text \<open>The operator \<open>??\<close> on results of \<open>toNumber\<close>.\<close>

fun orElse :: "'a option \<Rightarrow> 'a option \<Rightarrow> 'a option" where
  "orElse (Some x) y = Some x"
| "orElse None y = y"

fun orDefault :: "'a option \<Rightarrow> 'a \<Rightarrow> 'a" where
  "orDefault (Some x) d = x"
| "orDefault None d = d"

definition inputFromStats :: "(string \<Rightarrow> int option) \<Rightarrow> json \<Rightarrow> int option" where
  "inputFromStats num t = toNumber num (json_get t ''input_tokens'')"

definition outputFromStats :: "(string \<Rightarrow> int option) \<Rightarrow> json \<Rightarrow> int option" where
  "outputFromStats num t = toNumber num (json_get t ''output_tokens'')"

definition promptCount :: "(string \<Rightarrow> int option) \<Rightarrow> json \<Rightarrow> int option" where
  "promptCount num t =
     orElse (toNumber num (json_get t ''prompt''))
       (orElse (toNumber num (json_get t ''promptTokenCount''))
          (toNumber num (json_get t ''prompt_token_count'')))"

definition candidatesCount :: "(string \<Rightarrow> int option) \<Rightarrow> json \<Rightarrow> int option" where
  "candidatesCount num t =
     orElse (toNumber num (json_get t ''candidates''))
       (orElse (toNumber num (json_get t ''candidatesTokenCount''))
          (toNumber num (json_get t ''candidates_token_count'')))"

definition thoughtsCount :: "(string \<Rightarrow> int option) \<Rightarrow> json \<Rightarrow> int" where
  "thoughtsCount num t =
     orDefault (orElse (toNumber num (json_get t ''thoughts''))
       (orElse (toNumber num (json_get t ''thoughtsTokenCount''))
          (toNumber num (json_get t ''thoughts_token_count'')))) 0"

definition toolCount :: "(string \<Rightarrow> int option) \<Rightarrow> json \<Rightarrow> int" where
  "toolCount num t =
     orDefault (orElse (toNumber num (json_get t ''tool''))
       (orElse (toNumber num (json_get t ''toolUsePromptTokenCount''))
          (toNumber num (json_get t ''tool_use_prompt_token_count'')))) 0"

definition cachedCount :: "(string \<Rightarrow> int option) \<Rightarrow> json \<Rightarrow> int" where
  "cachedCount num t =
     orDefault (orElse (toNumber num (json_get t ''cached''))
       (orElse (toNumber num (json_get t ''cachedContentTokenCount''))
          (toNumber num (json_get t ''cached_content_token_count'')))) 0"

text \<open>The constants \<open>input_tokens\<close> and \<open>output_tokens\<close> of \<open>extractGeminiUsage\<close>.\<close>

definition derivedInput :: "(string \<Rightarrow> int option) \<Rightarrow> json \<Rightarrow> int option" where
  "derivedInput num t =
     orElse (inputFromStats num t)
       (case promptCount num t of Some prompt \<Rightarrow> Some (prompt + toolCount num t) | None \<Rightarrow> None)"

definition derivedOutput :: "(string \<Rightarrow> int option) \<Rightarrow> json \<Rightarrow> int option" where
  "derivedOutput num t =
     orElse (outputFromStats num t)
       (case candidatesCount num t of
          Some candidates \<Rightarrow> Some (candidates + thoughtsCount num t)
        | None \<Rightarrow> None)"

record GeminiUsage =
  gu_input_tokens :: int
  gu_output_tokens :: int
  gu_cached_input_tokens :: "int option"

text \<open>\<open>typeof v === 'object'\<close> for a truthy value.\<close>

fun is_object :: "json \<Rightarrow> bool" where
  "is_object (JObj _) = True"
| "is_object (JArr _) = True"
| "is_object _ = False"

definition extractGeminiUsage :: "(string \<Rightarrow> int option) \<Rightarrow> json option \<Rightarrow> GeminiUsage option" where
  "extractGeminiUsage num raw =
     (case raw of
        None \<Rightarrow> None
      | Some t \<Rightarrow>
          if js_truthy t \<and> is_object t then
            (let input = derivedInput num t;
                 output = derivedOutput num t;
                 cached = cachedCount num t
             in if orDefault input 0 \<le> 0 \<and> orDefault output 0 \<le> 0 \<and> cached \<le> 0 then None
                else Some \<lparr> gu_input_tokens = max (orDefault input 0) 0,
                            gu_output_tokens = max (orDefault output 0) 0,
                            gu_cached_input_tokens = (if cached > 0 then Some cached else None) \<rparr>)
          else None)"

text \<open>The usage object as it is stored on a message.\<close>

definition usageObject :: "GeminiUsage \<Rightarrow> json" where
  "usageObject u =
     JObj ([(''input_tokens'', JNum (gu_input_tokens u)),
            (''output_tokens'', JNum (gu_output_tokens u))] @
           (case gu_cached_input_tokens u of
              None \<Rightarrow> []
            | Some c \<Rightarrow> [(''cached_input_tokens'', JNum c)]))"

record GeminiToolCall =
  tc_id :: string
  tc_name :: string
  tc_args :: json
  tc_result :: "json option"
  tc_status :: "string option"
  tc_timestamp :: "string option"
  tc_resultDisplay :: "string option"

record GeminiDetailMessage =
  gm_id :: string
  gm_timestamp :: string
  gm_type :: string
  gm_content :: string
  gm_toolCalls :: "GeminiToolCall list option"
  gm_model :: "string option"
  gm_tokens :: "json option"

record GeminiSessionDetail =
  sessionId :: string
  projectHash :: string
  startTime :: string
  lastUpdated :: string
  detail_messages :: "GeminiDetailMessage list"

definition emptyBlock :: ContentBlock where
  "emptyBlock =
     \<lparr> b_type = None, b_text = None, b_id = None, b_name = None, b_input = None,
       b_tool_use_id = None, b_content = None, b_is_error = None \<rparr>"

definition emptyBody :: MessageBody where
  "emptyBody =
     \<lparr> content = None, role = None, body_id = None, body_timestamp = None,
       body_model = None, body_usage = None \<rparr>"

definition emptyMessage :: ClaudeStreamMessage where
  "emptyMessage =
     \<lparr> mtype = None, subtype = None, message = None, msg_id = None, uuid = None,
       timestamp = None, receivedAt = None, sentAt = None, engine = None, model = None,
       usage = None, parent_tool_use_id = None, isSidechain = None,
       codexMetadata = None, geminiMetadata = None \<rparr>"

definition textBlock :: "string \<Rightarrow> ContentBlock" where
  "textBlock s = emptyBlock\<lparr> b_type := Some ''text'', b_text := Some s \<rparr>"

definition toolUseBlock :: "GeminiToolCall \<Rightarrow> ContentBlock" where
  "toolUseBlock toolCall =
     emptyBlock\<lparr> b_type := Some ''tool_use'', b_id := Some (tc_id toolCall),
                 b_name := Some (tc_name toolCall), b_input := Some (tc_args toolCall) \<rparr>"

text \<open>
  \<open>resultContent\<close>: the tool result, or the \<open>output\<close> of the function response when
  the result is an array whose first element carries one.
\<close>

definition resultContent :: "json \<Rightarrow> json" where
  "resultContent result =
     (case result of
        JArr (first # rest) \<Rightarrow>
          (case json_get_opt (json_get_opt (json_get first ''functionResponse'') ''response'')
                  ''output'' of
             Some out \<Rightarrow> out
           | None \<Rightarrow> result)
      | _ \<Rightarrow> result)"

text \<open>
  The \<open>content\<close> of the synthesized \<open>tool_result\<close> block. \<open>JSON.stringify\<close> is the
  parameter \<open>stringify\<close>.
\<close>

definition toolResultContent :: "(json \<Rightarrow> string) \<Rightarrow> GeminiToolCall \<Rightarrow> json \<Rightarrow> string" where
  "toolResultContent stringify toolCall result =
     (if truthy_str (tc_resultDisplay toolCall) then the (tc_resultDisplay toolCall)
      else (case resultContent result of
              JStr s \<Rightarrow> s
            | v \<Rightarrow> stringify v))"

definition toolResultMessage ::
  "(json \<Rightarrow> string) \<Rightarrow> GeminiDetailMessage \<Rightarrow> GeminiToolCall \<Rightarrow> json \<Rightarrow> ClaudeStreamMessage" where
  "toolResultMessage stringify msg toolCall result =
     emptyMessage
       \<lparr> mtype := Some ''user'',
         message := Some (emptyBody
           \<lparr> content := Some (ContentArray
                [emptyBlock\<lparr> b_type := Some ''tool_result'',
                             b_tool_use_id := Some (tc_id toolCall),
                             b_content := Some (toolResultContent stringify toolCall result),
                             b_is_error := Some (tc_status toolCall = Some ''error'') \<rparr>]),
             role := Some ''user'' \<rparr>),
         timestamp := (if truthy_str (tc_timestamp toolCall) then tc_timestamp toolCall
                       else Some (gm_timestamp msg)),
         engine := Some ''gemini'' \<rparr>"

text \<open>The loop over \<open>msg.toolCalls\<close>; state: \<open>assistantContent\<close> and \<open>converted\<close>.\<close>

definition convertToolCall ::
  "(json \<Rightarrow> string) \<Rightarrow> GeminiDetailMessage \<Rightarrow> GeminiToolCall \<Rightarrow>
   ContentBlock list \<times> ClaudeStreamMessage list \<Rightarrow> ContentBlock list \<times> ClaudeStreamMessage list" where
  "convertToolCall stringify msg toolCall st =
     (let assistantContent = fst st @ [toolUseBlock toolCall] in
      case tc_result toolCall of
        None \<Rightarrow> (assistantContent, snd st)
      | Some result \<Rightarrow>
          (assistantContent, snd st @ [toolResultMessage stringify msg toolCall result]))"

definition convertDetailMessage ::
  "(string \<Rightarrow> int option) \<Rightarrow> (json \<Rightarrow> string) \<Rightarrow> GeminiDetailMessage \<Rightarrow>
   ClaudeStreamMessage list \<Rightarrow> ClaudeStreamMessage list" where
  "convertDetailMessage num stringify msg converted =
     (if gm_type msg = ''user'' then
        converted @
        [emptyMessage
           \<lparr> mtype := Some ''user'',
             message := Some (emptyBody
               \<lparr> content := Some (ContentArray
                    (if gm_content msg \<noteq> [] then [textBlock (gm_content msg)] else [])),
                 role := Some ''user'' \<rparr>),
             timestamp := Some (gm_timestamp msg),
             engine := Some ''gemini'' \<rparr>]
      else
        (let st0 = ([], converted);
             st1 = (case gm_toolCalls msg of
                      Some toolCalls \<Rightarrow>
                        if length toolCalls > 0
                        then fold (convertToolCall stringify msg) toolCalls st0
                        else st0
                    | None \<Rightarrow> st0);
             assistantContent =
               (if gm_content msg \<noteq> [] then fst st1 @ [textBlock (gm_content msg)] else fst st1);
             converted1 = snd st1 @
               [emptyMessage
                  \<lparr> mtype := Some ''assistant'',
                    message := Some (emptyBody
                      \<lparr> content := Some (ContentArray
                           (if length assistantContent > 0 then assistantContent
                            else [textBlock []])),
                        role := Some ''assistant'' \<rparr>),
                    timestamp := Some (gm_timestamp msg),
                    engine := Some ''gemini'',
                    model := gm_model msg \<rparr>]
         in case extractGeminiUsage num (gm_tokens msg) of
              Some u \<Rightarrow>
                converted1 @
                [emptyMessage
                   \<lparr> mtype := Some ''result'',
                     subtype := Some ''success'',
                     usage := Some (usageObject u),
                     timestamp := Some (gm_timestamp msg),
                     engine := Some ''gemini'',
                     model := gm_model msg \<rparr>]
            | None \<Rightarrow> converted1))"

definition convertGeminiSessionDetailToClaudeMessages ::
  "(string \<Rightarrow> int option) \<Rightarrow> (json \<Rightarrow> string) \<Rightarrow> GeminiSessionDetail \<Rightarrow>
   ClaudeStreamMessage list" where
  "convertGeminiSessionDetailToClaudeMessages num stringify detail =
     fold (convertDetailMessage num stringify) (detail_messages detail) []"

section \<open>Session history loading (useSessionLifecycle)\<close>

text \<open>\<open>String.prototype.includes\<close>\<close>

fun str_includes :: "string \<Rightarrow> string \<Rightarrow> bool" where
  "str_includes [] pat = (pat = [])"
| "str_includes (c # cs) pat = (take (length pat) (c # cs) = pat \<or> str_includes cs pat)"

text \<open>\<open>Array.prototype.join\<close> with a line feed.\<close>

fun joinLines :: "string list \<Rightarrow> string" where
  "joinLines [] = []"
| "joinLines [s] = s"
| "joinLines (s # t # ts) = s @ [CHR 0x0A] @ joinLines (t # ts)"

definition validTypes :: "string list" where
  "validTypes =
     [''user'', ''assistant'', ''system'', ''result'', ''summary'', ''thinking'', ''tool_use'']"

text \<open>The predicate handed to \<open>filter\<close>; the logging of the dropped kinds is no state.\<close>

definition keepEntry :: "ClaudeStreamMessage \<Rightarrow> bool" where
  "keepEntry entry =
     (if truthy_str (mtype entry) \<and> the (mtype entry) \<notin> set validTypes then False
      else True)"

definition loadedMessages :: "ClaudeStreamMessage list \<Rightarrow> ClaudeStreamMessage list" where
  "loadedMessages history =
     map (\<lambda>entry. entry\<lparr> mtype := (if truthy_str (mtype entry) then mtype entry
                                     else Some ''assistant'') \<rparr>)
       (filter keepEntry history)"

text \<open>
  \<open>normalizeUsageData\<close> is not part of the sources; it is the parameter \<open>norm\<close>.
  The nested usage objects are shared with the entries of \<open>history\<close>, the top-level
  field belongs to the copy made by \<open>loadedMessages\<close>.
\<close>

definition normalizeNested :: "(json \<Rightarrow> json) \<Rightarrow> ClaudeStreamMessage \<Rightarrow> ClaudeStreamMessage" where
  "normalizeNested norm msg =
     (let msg1 =
            (case message msg of
               Some b \<Rightarrow>
                 if truthy_json (body_usage b)
                 then msg\<lparr> message := Some (b\<lparr> body_usage := Some (norm (the (body_usage b))) \<rparr>) \<rparr>
                 else msg
             | None \<Rightarrow> msg)
      in case codexMetadata msg1 of
           Some c \<Rightarrow>
             if truthy_json (codex_usage c)
             then msg1\<lparr> codexMetadata := Some (c\<lparr> codex_usage := Some (norm (the (codex_usage c))) \<rparr>) \<rparr>
             else msg1
         | None \<Rightarrow> msg1)"

definition normalizeTop :: "(json \<Rightarrow> json) \<Rightarrow> ClaudeStreamMessage \<Rightarrow> ClaudeStreamMessage" where
  "normalizeTop norm msg =
     (if truthy_json (usage msg) then msg\<lparr> usage := Some (norm (the (usage msg))) \<rparr> else msg)"

definition slashTextContent :: "ClaudeStreamMessage \<Rightarrow> string" where
  "slashTextContent msg =
     (case message_content msg of
        Some (ContentString s) \<Rightarrow> s
      | Some (ContentArray items) \<Rightarrow>
          joinLines (map (\<lambda>item. if truthy_str (b_text item) then the (b_text item) else [])
                       (filter (\<lambda>item. b_type item = Some ''text'') items))
      | None \<Rightarrow> [])"

definition processMessage :: "(json \<Rightarrow> json) \<Rightarrow> ClaudeStreamMessage \<Rightarrow> ClaudeStreamMessage" where
  "processMessage norm msg0 =
     (let msg = normalizeTop norm (normalizeNested norm msg0) in
      if mtype msg = Some ''user'' then
        (let textContent = slashTextContent msg;
             isCommandOutput = str_includes textContent ''<local-command-stdout>'';
             isCommandMeta = (str_includes textContent ''<command-name>'' \<or>
                              str_includes textContent ''<command-message>'');
             isCommandError = str_includes textContent ''Unknown slash command:''
         in if isCommandOutput \<or> isCommandMeta \<or> isCommandError
            then msg\<lparr> mtype := Some ''system'',
                      subtype := Some (if isCommandOutput then ''command-output''
                                       else if isCommandError then ''command-error''
                                       else ''command-meta'') \<rparr>
            else msg)
      else msg)"

record Session =
  session_id :: string
  project_id :: string
  project_path :: string
  session_engine :: "string option"

text \<open>
  What the awaited fetch delivers: the Gemini session detail, the history of the other
  engines, or a rejection with its message.
\<close>

datatype fetched =
    FetchedDetail GeminiSessionDetail
  | FetchedHistory "ClaudeStreamMessage list"
  | FetchRejected string

text \<open>
  The collaborators that are not part of the sources: the Codex converter (a module-level
  object with state \<open>'cs\<close>), \<open>normalizeUsageData\<close>, \<open>JSON.stringify\<close> and \<open>Number\<close>;
  and whether the optional callbacks of the configuration are present.
\<close>

record ('cs, 'rl) Collaborators =
  converterReset :: "'cs \<Rightarrow> 'cs"
  convertEventObject :: "ClaudeStreamMessage \<Rightarrow> 'cs \<Rightarrow> ClaudeStreamMessage option \<times> 'cs"
  getRateLimits :: "'cs \<Rightarrow> 'rl"
  normalizeUsageData :: "json \<Rightarrow> json"
  stringifyMessage :: "ClaudeStreamMessage \<Rightarrow> string"
  stringifyJson :: "json \<Rightarrow> string"
  parseNumber :: "string \<Rightarrow> int option"
  hasSetCodexRateLimits :: bool
  hasOnSessionNotFound :: bool

text \<open>
  The state the hook reads and writes: the race-guard reference, the mounted flag, the
  React state behind the setters of the configuration, the number of calls of
  \<open>onSessionNotFound\<close>, and the state of the Codex converter.
\<close>

record ('cs, 'rl) LifecycleState =
  loadingSessionIdRef :: "string option"
  isMountedRef :: bool
  isLoading :: bool
  errorText :: "string option"
  shownMessages :: "ClaudeStreamMessage list"
  rawJsonlOutput :: "string list"
  codexRateLimits :: 'rl
  sessionNotFoundCalls :: nat
  codexConverter :: 'cs

text \<open>The message of \<open>setError\<close> on a failed load, as UTF-8 bytes.\<close>

definition loadFailedText :: string where
  "loadFailedText = map char_of
     [229, 138, 160, 232, 189, 189, 228, 188, 154, 232, 175, 157, 229, 142, 134, 229, 143,
      178, 232, 174, 176, 229, 189, 149, 229, 164, 177, 232, 180, 165 :: nat]"

text \<open>\<open>loadSessionHistory\<close> up to its first \<open>await\<close>.\<close>

definition beginLoad :: "Session \<Rightarrow> ('cs, 'rl) LifecycleState \<Rightarrow> ('cs, 'rl) LifecycleState" where
  "beginLoad session s =
     s\<lparr> loadingSessionIdRef := Some (session_id session), isLoading := True, errorText := None \<rparr>"

text \<open>The loop over the Codex events.\<close>

definition convertEvent ::
  "('cs, 'rl) Collaborators \<Rightarrow> ClaudeStreamMessage \<Rightarrow>
   ClaudeStreamMessage list \<times> 'cs \<Rightarrow> ClaudeStreamMessage list \<times> 'cs" where
  "convertEvent env event st =
     (case convertEventObject env event (snd st) of
        (Some msg, cs) \<Rightarrow> (fst st @ [msg], cs)
      | (None, cs) \<Rightarrow> (fst st, cs))"

text \<open>The \<open>catch\<close> block.\<close>

definition failLoad ::
  "('cs, 'rl) Collaborators \<Rightarrow> Session \<Rightarrow> string \<Rightarrow>
   ('cs, 'rl) LifecycleState \<Rightarrow> ('cs, 'rl) LifecycleState" where
  "failLoad env session errorMessage s =
     (if loadingSessionIdRef s \<noteq> Some (session_id session) then s
      else if \<not> isMountedRef s then s
      else if str_includes errorMessage ''Session file not found'' \<or>
              str_includes errorMessage ''not found'' \<or>
              str_includes errorMessage ''Session ID not found''
      then s\<lparr> sessionNotFoundCalls :=
                 (if hasOnSessionNotFound env then sessionNotFoundCalls s + 1
                  else sessionNotFoundCalls s),
               isLoading := False \<rparr>
      else s\<lparr> errorText := Some loadFailedText, isLoading := False \<rparr>)"

text \<open>From \<open>loadedMessages\<close> to the end of the \<open>try\<close> block.\<close>

definition publishHistory ::
  "('cs, 'rl) Collaborators \<Rightarrow> Session \<Rightarrow> ClaudeStreamMessage list \<Rightarrow>
   ('cs, 'rl) LifecycleState \<Rightarrow> ('cs, 'rl) LifecycleState" where
  "publishHistory env session history s =
     (let processedMessages = map (processMessage (normalizeUsageData env)) (loadedMessages history);
          historyAfter = map (\<lambda>entry. if keepEntry entry
                                        then normalizeNested (normalizeUsageData env) entry
                                        else entry) history
      in if loadingSessionIdRef s \<noteq> Some (session_id session) then s
         else if \<not> isMountedRef s then s
         else s\<lparr> shownMessages := processedMessages,
                  rawJsonlOutput := map (stringifyMessage env) historyAfter,
                  isLoading := False \<rparr>)"

text \<open>\<open>loadSessionHistory\<close> from the point where the awaited fetch settles.\<close>

definition completeLoad ::
  "('cs, 'rl) Collaborators \<Rightarrow> Session \<Rightarrow> fetched \<Rightarrow>
   ('cs, 'rl) LifecycleState \<Rightarrow> ('cs, 'rl) LifecycleState" where
  "completeLoad env session outcome s =
     (case outcome of
        FetchRejected errorMessage \<Rightarrow> failLoad env session errorMessage s
      | FetchedDetail geminiDetail \<Rightarrow>
          publishHistory env session
            (convertGeminiSessionDetailToClaudeMessages (parseNumber env) (stringifyJson env)
               geminiDetail) s
      | FetchedHistory history \<Rightarrow>
          if session_engine session = Some ''codex'' then
            (let st = fold (convertEvent env) history ([], converterReset env (codexConverter s));
                 s1 = s\<lparr> codexConverter := snd st \<rparr>;
                 s2 = (if hasSetCodexRateLimits env
                       then s1\<lparr> codexRateLimits := getRateLimits env (snd st) \<rparr>
                       else s1)
             in publishHistory env session (fst st) s2)
          else publishHistory env session history s)"

section \<open>Properties of the ledger, as stated\<close>

text \<open>
  How two candidates for one key are ranked: by total token count, then by timestamp
  (an absent one counting as 0), then by scan position.
\<close>

definition outranks :: "'c MutableBillingEvent \<Rightarrow> 'c MutableBillingEvent \<Rightarrow> bool" where
  "outranks e c =
     (totalTokenCount e > totalTokenCount c \<or>
      (totalTokenCount e = totalTokenCount c \<and>
       (ms0 e > ms0 c \<or> (ms0 e = ms0 c \<and> order e \<ge> order c))))"

text \<open>
  The order of the final event list: ascending timestamps where both events have one, an
  event with a timestamp before one without, ascending scan positions where neither has.
\<close>

definition ledgerBefore :: "'c MutableBillingEvent \<Rightarrow> 'c MutableBillingEvent \<Rightarrow> bool" where
  "ledgerBefore a b =
     (case timestampMs a of
        Some x \<Rightarrow> (case timestampMs b of Some y \<Rightarrow> x \<le> y | None \<Rightarrow> True)
      | None \<Rightarrow> (case timestampMs b of Some y \<Rightarrow> False | None \<Rightarrow> order a < order b))"

definition ledgerNotAfter :: "'c MutableBillingEvent \<Rightarrow> 'c MutableBillingEvent \<Rightarrow> bool" where
  "ledgerNotAfter a b =
     (case timestampMs a of
        Some x \<Rightarrow> (case timestampMs b of Some y \<Rightarrow> x \<le> y | None \<Rightarrow> True)
      | None \<Rightarrow> (case timestampMs b of Some y \<Rightarrow> False | None \<Rightarrow> order a \<le> order b))"

text \<open>The invariant of the scan over the first \<open>length ms\<close> messages.\<close>

definition scanInv ::
  "(ClaudeStreamMessage \<Rightarrow> StandardizedTokenUsage) \<Rightarrow>
   (StandardizedTokenUsage \<Rightarrow> string \<Rightarrow> string \<Rightarrow> 'c) \<Rightarrow>
   (string \<Rightarrow> int option) \<Rightarrow>
   ClaudeStreamMessage list \<Rightarrow> (string \<times> 'c MutableBillingEvent) list \<Rightarrow> bool" where
  "scanInv ex cm dp ms M \<longleftrightarrow>
     distinct (map fst M) \<and>
     (\<forall>(k, e) \<in> set M. k = key e \<and> order e < length ms \<and>
        billingCandidate ex cm dp (ms ! order e) (order e) = Some e) \<and>
     (\<forall>i < length ms. \<forall>c. billingCandidate ex cm dp (ms ! i) i = Some c \<longrightarrow>
        (\<exists>e. map_of M (key c) = Some e \<and> outranks e c))"

subsection \<open>A ledger to run the aggregator on\<close>

text \<open>
  The token extractor reads the \<open>input_tokens\<close> of the top-level usage object, the pricing
  function is constant, and two timestamps parse.
\<close>

definition demoExtract :: "ClaudeStreamMessage \<Rightarrow> StandardizedTokenUsage" where
  "demoExtract m =
     \<lparr> input_tokens =
         (case json_get_opt (usage m) ''input_tokens'' of Some (JNum n) \<Rightarrow> n | _ \<Rightarrow> 0),
       output_tokens = 0, cache_creation_tokens = 0, cache_read_tokens = 0 \<rparr>"

definition demoCost :: "StandardizedTokenUsage \<Rightarrow> string \<Rightarrow> string \<Rightarrow> int" where
  "demoCost t mdl eng = 0"

definition demoParse :: "string \<Rightarrow> int option" where
  "demoParse s = (if s = ''T2'' then Some 2 else if s = ''T5'' then Some 5 else None)"

definition demoLedger :: "ClaudeStreamMessage list" where
  "demoLedger =
     [emptyMessage\<lparr> mtype := Some ''assistant'', msg_id := Some ''a'',
                    usage := Some (JObj [(''input_tokens'', JNum 10)]) \<rparr>,
      emptyMessage\<lparr> mtype := Some ''assistant'', uuid := Some ''b'',
                    usage := Some (JObj [(''input_tokens'', JNum 7)]) \<rparr>,
      emptyMessage\<lparr> mtype := Some ''assistant'', msg_id := Some ''a'',
                    usage := Some (JObj [(''input_tokens'', JNum 30)]),
                    timestamp := Some ''T5'' \<rparr>,
      emptyMessage\<lparr> mtype := Some ''assistant'', msg_id := Some ''a'',
                    usage := Some (JObj [(''input_tokens'', JNum 30)]),
                    timestamp := Some ''T2'' \<rparr>]"


section \<open>Examples for the usage normalizer and the history filter\<close>

text \<open>A parser for \<open>Number\<close> on the two strings the examples use.\<close>

definition demoNumber :: "string \<Rightarrow> int option" where
  "demoNumber s = (if s = ''7'' then Some 7 else if s = ''0'' then Some 0 else None)"

text \<open>
  The rules of the normalizer, written on the fields of the raw record. A count is read
  from the first of its field names that holds a number (or a numeric string).
\<close>

fun firstNumber :: "(string \<Rightarrow> int option) \<Rightarrow> json \<Rightarrow> string list \<Rightarrow> int option" where
  "firstNumber num t [] = None"
| "firstNumber num t (n # ns) =
     (case toNumber num (json_get t n) of
        Some v \<Rightarrow> Some v
      | None \<Rightarrow> firstNumber num t ns)"

text \<open>
  Input: the direct \<open>input_tokens\<close>; else prompt plus tool-use count (0 when absent) when
  a prompt count is present; else 0. Output likewise from \<open>output_tokens\<close>, candidates
  and thoughts. Cached: the cached count, 0 when absent.
\<close>

definition inputByRules :: "(string \<Rightarrow> int option) \<Rightarrow> json \<Rightarrow> int" where
  "inputByRules num t =
     (case toNumber num (json_get t ''input_tokens'') of
        Some direct \<Rightarrow> direct
      | None \<Rightarrow>
          (case firstNumber num t [''prompt'', ''promptTokenCount'', ''prompt_token_count''] of
             Some prompt \<Rightarrow>
               prompt +
               (case firstNumber num t
                       [''tool'', ''toolUsePromptTokenCount'', ''tool_use_prompt_token_count''] of
                  Some toolUse \<Rightarrow> toolUse
                | None \<Rightarrow> 0)
           | None \<Rightarrow> 0))"

definition outputByRules :: "(string \<Rightarrow> int option) \<Rightarrow> json \<Rightarrow> int" where
  "outputByRules num t =
     (case toNumber num (json_get t ''output_tokens'') of
        Some direct \<Rightarrow> direct
      | None \<Rightarrow>
          (case firstNumber num t
                  [''candidates'', ''candidatesTokenCount'', ''candidates_token_count''] of
             Some candidates \<Rightarrow>
               candidates +
               (case firstNumber num t
                       [''thoughts'', ''thoughtsTokenCount'', ''thoughts_token_count''] of
                  Some thoughts \<Rightarrow> thoughts
                | None \<Rightarrow> 0)
           | None \<Rightarrow> 0))"

definition cachedByRules :: "(string \<Rightarrow> int option) \<Rightarrow> json \<Rightarrow> int" where
  "cachedByRules num t =
     (case firstNumber num t
             [''cached'', ''cachedContentTokenCount'', ''cached_content_token_count''] of
        Some cached \<Rightarrow> cached
      | None \<Rightarrow> 0)"

text \<open>Raw records: all component counts; numeric strings; nothing billable; and two on
  which the derivation differs from the plain sums.\<close>

definition componentTokens :: json where
  "componentTokens =
     JObj [(''prompt'', JNum 100), (''tool'', JNum 5), (''candidates'', JNum 20),
           (''thoughts'', JNum 30), (''cached'', JNum 0)]"

definition cachedTokens :: json where
  "cachedTokens =
     JObj [(''promptTokenCount'', JStr ''7''), (''tool'', JNum 3), (''thoughts'', JNum 4),
           (''cachedContentTokenCount'', JNum 5)]"

definition idleTokens :: json where
  "idleTokens = JObj [(''prompt'', JNum 0), (''thoughts'', JNum 0), (''output_tokens'', JStr ''0'')]"

definition thoughtsOnlyTokens :: json where
  "thoughtsOnlyTokens = JObj [(''prompt'', JNum 10), (''thoughts'', JNum 50)]"

definition negativeTokens :: json where
  "negativeTokens = JObj [(''prompt'', JNum (- 5)), (''candidates'', JNum 10)]"

text \<open>The kinds the data model lists.\<close>

definition closedKinds :: "string set" where
  "closedKinds = {''user'', ''assistant'', ''system'', ''result'', ''thinking'', ''tool_use''}"

definition summaryEntry :: ClaudeStreamMessage where
  "summaryEntry = emptyMessage\<lparr> mtype := Some ''summary'' \<rparr>"

definition demoHistory :: "ClaudeStreamMessage list" where
  "demoHistory =
     [emptyMessage\<lparr> mtype := Some ''user'' \<rparr>,
      emptyMessage\<lparr> mtype := Some ''queue-operation'' \<rparr>,
      emptyMessage\<lparr> uuid := Some ''u1'' \<rparr>,
      summaryEntry]"

definition sidechainOnly :: ClaudeStreamMessage where
  "sidechainOnly = emptyMessage\<lparr> mtype := Some ''assistant'', isSidechain := Some True \<rparr>"

section \<open>The Gemini scenario\<close>

text \<open>
  One user turn \<open>fix bug\<close> and one model turn with the narrative \<open>Fixed it\<close>, the given
  token record and one tool call \<open>readFile\<close> whose display summary is \<open>ok\<close>. Identifiers,
  timestamps, arguments, status and model are left open, and so is the tool's result
  (\<open>None\<close>: the call has no \<open>result\<close> field).
\<close>

definition scenarioToolCall ::
  "string \<Rightarrow> json \<Rightarrow> json option \<Rightarrow> string option \<Rightarrow> string option \<Rightarrow> GeminiToolCall" where
  "scenarioToolCall callId args res status callTime =
     \<lparr> tc_id = callId, tc_name = ''readFile'', tc_args = args, tc_result = res,
       tc_status = status, tc_timestamp = callTime, tc_resultDisplay = Some ''ok'' \<rparr>"

definition scenarioUserTurn :: "string \<Rightarrow> string \<Rightarrow> GeminiDetailMessage" where
  "scenarioUserTurn turnId time =
     \<lparr> gm_id = turnId, gm_timestamp = time, gm_type = ''user'', gm_content = ''fix bug'',
       gm_toolCalls = None, gm_model = None, gm_tokens = None \<rparr>"

definition scenarioModelTurn ::
  "string \<Rightarrow> string \<Rightarrow> GeminiToolCall \<Rightarrow> string option \<Rightarrow> GeminiDetailMessage" where
  "scenarioModelTurn turnId time toolCall mdl =
     \<lparr> gm_id = turnId, gm_timestamp = time, gm_type = ''gemini'', gm_content = ''Fixed it'',
       gm_toolCalls = Some [toolCall], gm_model = mdl,
       gm_tokens = Some (JObj [(''prompt'', JNum 100), (''candidates'', JNum 20),
                               (''cached'', JNum 0)]) \<rparr>"

definition scenarioDetail :: "GeminiDetailMessage \<Rightarrow> GeminiDetailMessage \<Rightarrow> GeminiSessionDetail" where
  "scenarioDetail userTurn modelTurn =
     \<lparr> sessionId = ''s'', projectHash = ''h'', startTime = ''T0'', lastUpdated = ''T9'',
       detail_messages = [userTurn, modelTurn] \<rparr>"

text \<open>The four kinds of message the conversion produces on the scenario.\<close>

definition userTextMessage :: "string \<Rightarrow> string \<Rightarrow> ClaudeStreamMessage" where
  "userTextMessage time txt =
     emptyMessage
       \<lparr> mtype := Some ''user'',
         message := Some (emptyBody\<lparr> content := Some (ContentArray [textBlock txt]),
                                     role := Some ''user'' \<rparr>),
         timestamp := Some time, engine := Some ''gemini'' \<rparr>"

definition toolResultUserMessage ::
  "string option \<Rightarrow> string \<Rightarrow> string \<Rightarrow> bool \<Rightarrow> ClaudeStreamMessage" where
  "toolResultUserMessage time callId txt isError =
     emptyMessage
       \<lparr> mtype := Some ''user'',
         message := Some (emptyBody
           \<lparr> content := Some (ContentArray
                [emptyBlock\<lparr> b_type := Some ''tool_result'', b_tool_use_id := Some callId,
                             b_content := Some txt, b_is_error := Some isError \<rparr>]),
             role := Some ''user'' \<rparr>),
         timestamp := time, engine := Some ''gemini'' \<rparr>"

definition assistantMessage ::
  "string \<Rightarrow> string option \<Rightarrow> ContentBlock list \<Rightarrow> ClaudeStreamMessage" where
  "assistantMessage time mdl blocks =
     emptyMessage
       \<lparr> mtype := Some ''assistant'',
         message := Some (emptyBody\<lparr> content := Some (ContentArray blocks),
                                     role := Some ''assistant'' \<rparr>),
         timestamp := Some time, engine := Some ''gemini'', model := mdl \<rparr>"

definition resultMessage :: "string \<Rightarrow> string option \<Rightarrow> json \<Rightarrow> ClaudeStreamMessage" where
  "resultMessage time mdl u =
     emptyMessage
       \<lparr> mtype := Some ''result'', subtype := Some ''success'', usage := Some u,
         timestamp := Some time, engine := Some ''gemini'', model := mdl \<rparr>"

text \<open>The kinds of the content blocks of a message.\<close>

definition blockKinds :: "ClaudeStreamMessage \<Rightarrow> string option list" where
  "blockKinds m = map b_type (contentItems m)"

text \<open>\<open>JSON.stringify\<close> and \<open>Number\<close> for the examples; neither is called on them.\<close>

definition demoStringify :: "json \<Rightarrow> string" where
  "demoStringify v = ''<json>''"

text \<open>
  The scenario as worded, the tool call having no \<open>result\<close> field; and the scenario with
  a result that is the string \<open>ok\<close> itself.
\<close>

definition bareScenario :: GeminiSessionDetail where
  "bareScenario =
     scenarioDetail (scenarioUserTurn ''m1'' ''T1'')
       (scenarioModelTurn ''m2'' ''T2''
          (scenarioToolCall ''call1'' (JObj [(''path'', JStr ''a.ts'')]) None
             (Some ''success'') None)
          (Some ''gemini-2.5-pro''))"

definition agreedScenario :: GeminiSessionDetail where
  "agreedScenario =
     scenarioDetail (scenarioUserTurn ''m1'' ''T1'')
       (scenarioModelTurn ''m2'' ''T2''
          (scenarioToolCall ''call1'' (JObj [(''path'', JStr ''a.ts'')]) (Some (JStr ''ok''))
             (Some ''success'') None)
          (Some ''gemini-2.5-pro''))"

text \<open>
  A tool call with a structured function response and a different display summary.
\<close>

definition functionResponseCall :: GeminiToolCall where
  "functionResponseCall =
     \<lparr> tc_id = ''call1'', tc_name = ''readFile'', tc_args = JObj [],
       tc_result = Some (JArr [JObj [(''functionResponse'',
                     JObj [(''id'', JStr ''call1''),
                           (''response'', JObj [(''output'', JStr ''full output'')])])]]),
       tc_status = Some ''success'', tc_timestamp = None,
       tc_resultDisplay = Some ''summary'' \<rparr>"

definition functionResponseDetail :: GeminiSessionDetail where
  "functionResponseDetail =
     \<lparr> sessionId = ''s'', projectHash = ''h'', startTime = ''T0'', lastUpdated = ''T9'',
       detail_messages =
         [\<lparr> gm_id = ''m2'', gm_timestamp = ''T2'', gm_type = ''gemini'', gm_content = [],
            gm_toolCalls = Some [functionResponseCall], gm_model = None, gm_tokens = None \<rparr>] \<rparr>"

section \<open>A run of the session lifecycle\<close>

text \<open>
  A stand-in for the Codex converter: its state counts the events converted since the
  last reset, every event yields a message, and the rate limits are that count.
\<close>

definition demoEnv :: "(nat, nat) Collaborators" where
  "demoEnv =
     \<lparr> converterReset = (\<lambda>cs. 0),
       convertEventObject = (\<lambda>event cs. (Some event, cs + 1)),
       getRateLimits = (\<lambda>cs. cs),
       normalizeUsageData = (\<lambda>u. u),
       stringifyMessage = (\<lambda>m. ''<message>''),
       stringifyJson = demoStringify,
       parseNumber = demoNumber,
       hasSetCodexRateLimits = True,
       hasOnSessionNotFound = True \<rparr>"

definition idleState :: "(nat, nat) LifecycleState" where
  "idleState =
     \<lparr> loadingSessionIdRef = None, isMountedRef = True, isLoading = False, errorText = None,
       shownMessages = [], rawJsonlOutput = [], codexRateLimits = 0,
       sessionNotFoundCalls = 0, codexConverter = 0 \<rparr>"

definition sessionA :: Session where
  "sessionA = \<lparr> session_id = ''A'', project_id = ''p'', project_path = ''/p'',
                session_engine = Some ''codex'' \<rparr>"

definition sessionB :: Session where
  "sessionB = \<lparr> session_id = ''B'', project_id = ''p'', project_path = ''/p'',
                session_engine = None \<rparr>"

definition historyA :: "ClaudeStreamMessage list" where
  "historyA = [emptyMessage\<lparr> mtype := Some ''system'' \<rparr>, emptyMessage\<lparr> mtype := Some ''assistant'' \<rparr>]"

definition historyB :: "ClaudeStreamMessage list" where
  "historyB = [emptyMessage\<lparr> mtype := Some ''user'', uuid := Some ''b1'' \<rparr>]"

section \<open>Properties of the grouping, as stated\<close>

text \<open>The sub-agent groups of a message sequence: the result of the first two passes.\<close>

definition subagentGroupsOf :: "ClaudeStreamMessage list \<Rightarrow> (string \<times> SubagentGroup) list" where
  "subagentGroupsOf messages = secondPass messages (firstPass messages)"






subsection \<open>Messages to run the grouping on\<close>

definition taskCall :: "string \<Rightarrow> ContentBlock" where
  "taskCall callId =
     emptyBlock\<lparr> b_type := Some ''tool_use'', b_id := Some callId, b_name := Some ''Task'',
                 b_input := Some (JObj [(''subagent_type'', JStr ''explorer'')]) \<rparr>"

definition assistantWith :: "ContentBlock list \<Rightarrow> ClaudeStreamMessage" where
  "assistantWith blocks =
     emptyMessage\<lparr> mtype := Some ''assistant'',
                   message := Some (emptyBody\<lparr> content := Some (ContentArray blocks) \<rparr>) \<rparr>"

definition childOf :: "string \<Rightarrow> string \<Rightarrow> ClaudeStreamMessage" where
  "childOf parent txt = (assistantWith [textBlock txt])\<lparr> parent_tool_use_id := Some parent \<rparr>"






text \<open>Two parallel spawns and five sub-agent messages, interleaved.\<close>

definition parallelSpawn :: ClaudeStreamMessage where
  "parallelSpawn = assistantWith [taskCall ''t1'', taskCall ''t2'']"

definition interleaved :: "ClaudeStreamMessage list" where
  "interleaved =
     [childOf ''t2'' ''b1'', childOf ''t1'' ''a1'', childOf ''t1'' ''a2'',
      childOf ''t2'' ''b2'', childOf ''t1'' ''a3'']"

section \<open>The billing ledger: deduplication and order\<close>


lemma cmp_lt: "compareEvents x y < 0 \<Longrightarrow> ledgerNotAfter x y"
  by (auto simp: compareEvents_def ledgerNotAfter_def split: option.splits if_splits)

lemma cmp_ge: "\<not> compareEvents x y < 0 \<Longrightarrow> ledgerNotAfter y x"
  by (auto simp: compareEvents_def ledgerNotAfter_def split: option.splits if_splits)

lemma lb_trans: "ledgerNotAfter x y \<Longrightarrow> ledgerNotAfter y z \<Longrightarrow> ledgerNotAfter x z"
  by (auto simp: ledgerNotAfter_def split: option.splits)

lemma set_insertBy: "set (insertBy cmp x xs) = insert x (set xs)"
  by (induction xs) auto

lemma mset_insertBy: "mset (insertBy cmp x xs) = add_mset x (mset xs)"
  by (induction xs) auto

lemma sorted_insertBy:
  "sorted_wrt ledgerNotAfter xs \<Longrightarrow> sorted_wrt ledgerNotAfter (insertBy compareEvents x xs)"
proof (induction xs)
  case Nil
  then show ?case by simp
next
  case (Cons y ys)
  show ?case
  proof (cases "compareEvents x y < 0")
    case True
    then have xy: "ledgerNotAfter x y" by (rule cmp_lt)
    have "\<forall>z\<in>set ys. ledgerNotAfter x z"
      using Cons.prems xy by (auto intro: lb_trans)
    with True xy Cons.prems show ?thesis by simp
  next
    case False
    then have yx: "ledgerNotAfter y x" by (rule cmp_ge)
    with False Cons show ?thesis by (auto simp: set_insertBy)
  qed
qed

lemma foldl_insertBy_sorted:
  "sorted_wrt ledgerNotAfter acc \<Longrightarrow>
   sorted_wrt ledgerNotAfter (foldl (\<lambda>acc x. insertBy compareEvents x acc) acc xs)"
  by (induction xs arbitrary: acc) (auto intro: sorted_insertBy)

lemma foldl_insertBy_mset:
  "mset (foldl (\<lambda>acc x. insertBy cmp x acc) acc xs) = mset acc + mset xs"
  by (induction xs arbitrary: acc) (auto simp: mset_insertBy)

lemma sortBy_sorted: "sorted_wrt ledgerNotAfter (sortBy compareEvents xs)"
  by (simp add: sortBy_def foldl_insertBy_sorted)

lemma mset_sortBy: "mset (sortBy cmp xs) = mset xs"
  by (simp add: sortBy_def foldl_insertBy_mset)



lemma billingCandidate_order:
  "billingCandidate ex cm dp m i = Some c \<Longrightarrow> order c = i"
  by (auto simp: billingCandidate_def Let_def split: if_splits)

lemma billingCandidate_key:
  "billingCandidate ex cm dp m i = Some c \<Longrightarrow> key c = getBillingKey m i"
  by (auto simp: billingCandidate_def Let_def split: if_splits)

lemma scanMessages_snoc:
  "scanMessages ex cm dp (ms @ [m]) =
     scanMessage ex cm dp (length ms, m) (scanMessages ex cm dp ms)"
  by (simp add: scanMessages_def enumerate_append_eq)

lemma set_update_subset: "set (AList.update k v al) \<subseteq> insert (k, v) (set al)"
  by (induction al) auto

lemma scanInv_none:
  assumes inv: "scanInv ex cm dp ms M"
    and none: "billingCandidate ex cm dp m (length ms) = None"
  shows "scanInv ex cm dp (ms @ [m]) M"
  using inv none unfolding scanInv_def
  by (auto simp: nth_append less_Suc_eq)

lemma scanInv_some:
  assumes inv: "scanInv ex cm dp ms M"
    and some: "billingCandidate ex cm dp m (length ms) = Some ev"
  shows "scanInv ex cm dp (ms @ [m]) (supersede ev M)"
proof -
  have d: "distinct (map fst M)"
    and mem: "\<And>k e. (k, e) \<in> set M \<Longrightarrow> k = key e \<and> order e < length ms \<and>
        billingCandidate ex cm dp (ms ! order e) (order e) = Some e"
    and cov: "\<And>i c. i < length ms \<Longrightarrow> billingCandidate ex cm dp (ms ! i) i = Some c \<Longrightarrow>
        \<exists>e. map_of M (key c) = Some e \<and> outranks e c"
    using inv unfolding scanInv_def by auto
  have ord: "order ev = length ms" using some by (rule billingCandidate_order)
  let ?ms = "ms @ [m]"
  have old: "\<And>i. i < length ms \<Longrightarrow> ?ms ! i = ms ! i" by (simp add: nth_append)
  have new: "?ms ! length ms = m" by simp
  show ?thesis
  proof (cases "map_of M (key ev)")
    case None
    then have S: "supersede ev M = AList.update (key ev) ev M" by (simp add: supersede_def)
    have 1: "distinct (map fst (supersede ev M))" using d by (simp add: S distinct_update)
    have 2: "\<forall>(k, e) \<in> set (supersede ev M). k = key e \<and> order e < length ?ms \<and>
        billingCandidate ex cm dp (?ms ! order e) (order e) = Some e"
    proof (clarify)
      fix k e assume "(k, e) \<in> set (supersede ev M)"
      then have "(k, e) = (key ev, ev) \<or> (k, e) \<in> set M"
        using set_update_subset[of "key ev" ev M] S by auto
      then show "k = key e \<and> order e < length ?ms \<and>
        billingCandidate ex cm dp (?ms ! order e) (order e) = Some e"
      proof
        assume "(k, e) = (key ev, ev)"
        then show ?thesis using ord some by simp
      next
        assume "(k, e) \<in> set M"
        from mem[OF this] show ?thesis by (simp add: nth_append)
      qed
    qed
    have 3: "\<forall>i < length ?ms. \<forall>c. billingCandidate ex cm dp (?ms ! i) i = Some c \<longrightarrow>
        (\<exists>e. map_of (supersede ev M) (key c) = Some e \<and> outranks e c)"
    proof (intro allI impI)
      fix i c assume i: "i < length ?ms" and c: "billingCandidate ex cm dp (?ms ! i) i = Some c"
      show "\<exists>e. map_of (supersede ev M) (key c) = Some e \<and> outranks e c"
      proof (cases "i < length ms")
        case True
        with c have "billingCandidate ex cm dp (ms ! i) i = Some c" by (simp add: nth_append)
        from cov[OF True this] obtain e where e: "map_of M (key c) = Some e" "outranks e c" by blast
        with None have "key c \<noteq> key ev" by auto
        with e show ?thesis by (simp add: S update_conv')
      next
        case False
        with i have "i = length ms" by simp
        with c some have "c = ev" by simp
        then show ?thesis by (simp add: S update_conv' outranks_def)
      qed
    qed
    from 1 2 3 show ?thesis unfolding scanInv_def by blast
  next
    case (Some existing)
    show ?thesis
    proof (cases "totalTokenCount ev > totalTokenCount existing \<or>
             (totalTokenCount ev = totalTokenCount existing \<and> ms0 ev \<ge> ms0 existing)")
      case True
      then have S: "supersede ev M = AList.update (key ev) ev M"
        using Some by (simp add: supersede_def)
      have 1: "distinct (map fst (supersede ev M))" using d by (simp add: S distinct_update)
      have 2: "\<forall>(k, e) \<in> set (supersede ev M). k = key e \<and> order e < length ?ms \<and>
          billingCandidate ex cm dp (?ms ! order e) (order e) = Some e"
      proof (clarify)
        fix k e assume "(k, e) \<in> set (supersede ev M)"
        then have "(k, e) = (key ev, ev) \<or> (k, e) \<in> set M"
          using set_update_subset[of "key ev" ev M] S by auto
        then show "k = key e \<and> order e < length ?ms \<and>
          billingCandidate ex cm dp (?ms ! order e) (order e) = Some e"
        proof
          assume "(k, e) = (key ev, ev)"
          then show ?thesis using ord some by simp
        next
          assume "(k, e) \<in> set M"
          from mem[OF this] show ?thesis by (simp add: nth_append)
        qed
      qed
      have 3: "\<forall>i < length ?ms. \<forall>c. billingCandidate ex cm dp (?ms ! i) i = Some c \<longrightarrow>
          (\<exists>e. map_of (supersede ev M) (key c) = Some e \<and> outranks e c)"
      proof (intro allI impI)
        fix i c assume i: "i < length ?ms" and c: "billingCandidate ex cm dp (?ms ! i) i = Some c"
        show "\<exists>e. map_of (supersede ev M) (key c) = Some e \<and> outranks e c"
        proof (cases "i < length ms")
          case il: True
          with c have c': "billingCandidate ex cm dp (ms ! i) i = Some c" by (simp add: nth_append)
          from cov[OF il this] obtain e where e: "map_of M (key c) = Some e" "outranks e c" by blast
          have oc: "order c = i" using c' by (rule billingCandidate_order)
          show ?thesis
          proof (cases "key c = key ev")
            case kk: True
            with e Some have "e = existing" by simp
            with e(2) True oc il ord have "outranks ev c"
              by (auto simp: outranks_def)
            with kk show ?thesis by (simp add: S update_conv')
          next
            case False
            with e show ?thesis by (simp add: S update_conv')
          qed
        next
          case False
          with i have "i = length ms" by simp
          with c some have "c = ev" by simp
          then show ?thesis by (simp add: S update_conv' outranks_def)
        qed
      qed
      from 1 2 3 show ?thesis unfolding scanInv_def by blast
    next
      case False
      then have S: "supersede ev M = M" using Some by (auto simp: supersede_def)
      have 2: "\<forall>(k, e) \<in> set M. k = key e \<and> order e < length ?ms \<and>
          billingCandidate ex cm dp (?ms ! order e) (order e) = Some e"
        using mem by (auto simp: nth_append)
      have 3: "\<forall>i < length ?ms. \<forall>c. billingCandidate ex cm dp (?ms ! i) i = Some c \<longrightarrow>
          (\<exists>e. map_of M (key c) = Some e \<and> outranks e c)"
      proof (intro allI impI)
        fix i c assume i: "i < length ?ms" and c: "billingCandidate ex cm dp (?ms ! i) i = Some c"
        show "\<exists>e. map_of M (key c) = Some e \<and> outranks e c"
        proof (cases "i < length ms")
          case True
          with c have "billingCandidate ex cm dp (ms ! i) i = Some c" by (simp add: nth_append)
          from cov[OF True this] show ?thesis .
        next
          case nl: False
          with i have "i = length ms" by simp
          with c some have "c = ev" by simp
          with Some False show ?thesis by (auto simp: outranks_def)
        qed
      qed
      from d 2 3 show ?thesis unfolding scanInv_def S by blast
    qed
  qed
qed

lemma scanInv_scanMessages: "scanInv ex cm dp ms (scanMessages ex cm dp ms)"
proof (induction ms rule: rev_induct)
  case Nil
  show ?case by (simp add: scanInv_def scanMessages_def)
next
  case (snoc m ms)
  show ?case
  proof (cases "billingCandidate ex cm dp m (length ms)")
    case None
    with scanInv_none[OF snoc this] show ?thesis
      by (simp add: scanMessages_snoc scanMessage_def)
  next
    case (Some ev)
    with scanInv_some[OF snoc this] show ?thesis
      by (simp add: scanMessages_snoc scanMessage_def)
  qed
qed


lemma distinct_map_transfer:
  "distinct (map f xs) \<Longrightarrow> (\<And>x y. x \<in> set xs \<Longrightarrow> y \<in> set xs \<Longrightarrow> g x = g y \<Longrightarrow> f x = f y) \<Longrightarrow>
   distinct (map g xs)"
proof (induction xs)
  case Nil
  then show ?case by simp
next
  case (Cons a xs)
  have "g a \<notin> g ` set xs"
  proof
    assume "g a \<in> g ` set xs"
    then obtain y where y: "y \<in> set xs" "g a = g y" by auto
    then have "f a = f y" using Cons.prems(2)[of a y] by simp
    with y Cons.prems(1) show False by auto
  qed
  moreover have "distinct (map g xs)"
    using Cons by auto
  ultimately show ?case by simp
qed

lemma distinct_map_mset:
  "mset ys = mset xs \<Longrightarrow> distinct (map f xs) \<Longrightarrow> distinct (map f ys)"
proof -
  assume a: "mset ys = mset xs" and d: "distinct (map f xs)"
  from a have "mset (map f ys) = mset (map f xs)" by simp
  with d show ?thesis by (metis mset_eq_imp_distinct_iff)
qed

lemma sorted_strict:
  "sorted_wrt ledgerNotAfter xs \<Longrightarrow> distinct (map order xs) \<Longrightarrow> sorted_wrt ledgerBefore xs"
proof (induction xs)
  case Nil
  then show ?case by simp
next
  case (Cons a xs)
  have "\<forall>y\<in>set xs. ledgerBefore a y"
  proof
    fix y assume y: "y \<in> set xs"
    with Cons.prems have "ledgerNotAfter a y" "order a \<noteq> order y" by auto
    then show "ledgerBefore a y"
      by (auto simp: ledgerBefore_def ledgerNotAfter_def split: option.splits)
  qed
  with Cons show ?case by simp
qed

lemma scanInv_mem:
  "scanInv ex cm dp ms M \<Longrightarrow> (k, e) \<in> set M \<Longrightarrow>
   k = key e \<and> order e < length ms \<and> billingCandidate ex cm dp (ms ! order e) (order e) = Some e"
  unfolding scanInv_def by fast


lemma scan_keys:
  "map key (map snd (scanMessages ex cm dp ms)) = map fst (scanMessages ex cm dp ms)"
  using scanInv_scanMessages[of ex cm dp ms] unfolding scanInv_def by auto

lemma scan_distinct_keys:
  "distinct (map key (map snd (scanMessages ex cm dp ms)))"
  using scanInv_scanMessages[of ex cm dp ms] unfolding scan_keys scanInv_def by blast

lemma scan_distinct_orders:
  "distinct (map order (map snd (scanMessages ex cm dp ms)))"
proof (rule distinct_map_transfer[OF scan_distinct_keys])
  fix x y
  assume "x \<in> set (map snd (scanMessages ex cm dp ms))"
     and "y \<in> set (map snd (scanMessages ex cm dp ms))"
     and o: "order x = order y"
  then obtain k k' where kx: "(k, x) \<in> set (scanMessages ex cm dp ms)"
      and ky: "(k', y) \<in> set (scanMessages ex cm dp ms)" by auto
  have "billingCandidate ex cm dp (ms ! order x) (order x) = Some x"
    using scanInv_mem[OF scanInv_scanMessages kx] by blast
  moreover have "billingCandidate ex cm dp (ms ! order y) (order y) = Some y"
    using scanInv_mem[OF scanInv_scanMessages ky] by blast
  ultimately have "Some x = Some y" unfolding o by (rule trans[OF sym])
  then show "key x = key y" by simp
qed

text \<open>
  Claim C7. The final event list is in ledger order: of any two events, the earlier in
  the list has the smaller or equal timestamp when both have one; an event with a
  timestamp stands before every event without; and two events without timestamps stand
  in the order in which their messages were scanned.
\<close>

theorem aggregateSessionCost_order:
  "sorted_wrt ledgerBefore (aggregateSessionCost_events ex cm dp ms)"
  unfolding aggregateSessionCost_events_def
  by (intro sorted_strict sortBy_sorted distinct_map_mset[OF mset_sortBy] scan_distinct_orders)

theorem aggregateSessionCost_order_witness:
  "sorted_wrt ledgerBefore (aggregateSessionCost_events demoExtract demoCost demoParse demoLedger)"
  by (rule aggregateSessionCost_order)



lemma demoLedger_events:
  "map (\<lambda>e. (key e, totalTokenCount e, timestampMs e, order e))
     (aggregateSessionCost_events demoExtract demoCost demoParse demoLedger) =
   [(''message:a'', 30, Some 5, 2), (''uuid:b'', 7, None, 1)]"
  by code_simp

section \<open>Visibility of sidechain messages\<close>

text \<open>
  Claim C10. A message whose \<open>isSidechain\<close> flag is true and whose \<open>parent_tool_use_id\<close>
  is absent counts as a sub-agent message, and \<open>shouldHideMessage\<close> is false for it
  whatever the groups are.
\<close>

theorem shouldHideMessage_sidechain_only:
  "isSidechain m = Some True \<Longrightarrow> parent_tool_use_id m = None \<Longrightarrow>
   isSubagentMessage m \<and> \<not> shouldHideMessage m groups"
  by (simp add: shouldHideMessage_def isSubagentMessage_def getParentToolUseId_def)

theorem shouldHideMessage_sidechain_only_witness:
  "isSidechain sidechainOnly = Some True \<and> parent_tool_use_id sidechainOnly = None \<and>
   isSubagentMessage sidechainOnly \<and>
   \<not> shouldHideMessage sidechainOnly (groupMessages [sidechainOnly])"
proof -
  have a: "isSidechain sidechainOnly = Some True"
    by (simp add: sidechainOnly_def emptyMessage_def)
  have b: "parent_tool_use_id sidechainOnly = None"
    by (simp add: sidechainOnly_def emptyMessage_def)
  from shouldHideMessage_sidechain_only[OF a b, of "groupMessages [sidechainOnly]"] a b
  show ?thesis by simp
qed

section \<open>The usage normalizer\<close>

lemma firstNumber_three:
  "firstNumber num t [a, b, c] =
     orElse (toNumber num (json_get t a))
       (orElse (toNumber num (json_get t b)) (toNumber num (json_get t c)))"
  by (simp split: option.splits)

lemma inputByRules_eq: "inputByRules num t = orDefault (derivedInput num t) 0"
  by (simp add: inputByRules_def derivedInput_def inputFromStats_def promptCount_def
      toolCount_def firstNumber_three[symmetric] split: option.splits)

lemma outputByRules_eq: "outputByRules num t = orDefault (derivedOutput num t) 0"
  by (simp add: outputByRules_def derivedOutput_def outputFromStats_def candidatesCount_def
      thoughtsCount_def firstNumber_three[symmetric] split: option.splits)

lemma cachedByRules_eq: "cachedByRules num t = cachedCount num t"
  by (simp add: cachedByRules_def cachedCount_def firstNumber_three[symmetric]
      split: option.splits)

lemma extractGeminiUsage_Some:
  "extractGeminiUsage num raw = Some u \<Longrightarrow>
   \<exists>t. raw = Some t \<and> js_truthy t \<and> is_object t \<and>
     u = \<lparr> gu_input_tokens = max (orDefault (derivedInput num t) 0) 0,
           gu_output_tokens = max (orDefault (derivedOutput num t) 0) 0,
           gu_cached_input_tokens =
             (if cachedCount num t > 0 then Some (cachedCount num t) else None) \<rparr>"
  by (auto simp: extractGeminiUsage_def Let_def split: option.splits if_splits)

text \<open>
  Claim C6, as the code has it. For every raw token record that is an object, the result
  is \<open>null\<close> exactly when input, output and cached count are all zero, negative or
  missing; otherwise it carries the input and the output, each clamped at zero from
  below, and the cached count exactly when that is strictly positive. Here the input is
  the direct \<open>input_tokens\<close> or else prompt plus tool-use count, the latter only where a
  prompt count is present; the output is the direct \<open>output_tokens\<close> or else candidates
  plus thoughts, only where a candidates count is present. For every raw value, no field
  of a result is negative, and only an object yields a result.
\<close>

theorem extractGeminiUsage_rules:
  "(js_truthy t \<and> is_object t \<longrightarrow>
      extractGeminiUsage num (Some t) =
        (if inputByRules num t \<le> 0 \<and> outputByRules num t \<le> 0 \<and> cachedByRules num t \<le> 0
         then None
         else Some \<lparr> gu_input_tokens = max (inputByRules num t) 0,
                     gu_output_tokens = max (outputByRules num t) 0,
                     gu_cached_input_tokens =
                       (if cachedByRules num t > 0 then Some (cachedByRules num t)
                        else None) \<rparr>)) \<and>
   (\<forall>u. extractGeminiUsage num raw = Some u \<longrightarrow>
      0 \<le> gu_input_tokens u \<and> 0 \<le> gu_output_tokens u \<and>
      (\<forall>c. gu_cached_input_tokens u = Some c \<longrightarrow> 0 < c) \<and>
      (\<exists>r. raw = Some r \<and> js_truthy r \<and> is_object r))"
proof (intro conjI allI impI)
  assume "js_truthy t \<and> is_object t"
  then show "extractGeminiUsage num (Some t) =
        (if inputByRules num t \<le> 0 \<and> outputByRules num t \<le> 0 \<and> cachedByRules num t \<le> 0
         then None
         else Some \<lparr> gu_input_tokens = max (inputByRules num t) 0,
                     gu_output_tokens = max (outputByRules num t) 0,
                     gu_cached_input_tokens =
                       (if cachedByRules num t > 0 then Some (cachedByRules num t)
                        else None) \<rparr>)"
    unfolding inputByRules_eq outputByRules_eq cachedByRules_eq
    by (simp add: extractGeminiUsage_def Let_def)
next
  fix u assume u: "extractGeminiUsage num raw = Some u"
  from extractGeminiUsage_Some[OF u] obtain r where r: "raw = Some r" "js_truthy r" "is_object r"
    "u = \<lparr> gu_input_tokens = max (orDefault (derivedInput num r) 0) 0,
           gu_output_tokens = max (orDefault (derivedOutput num r) 0) 0,
           gu_cached_input_tokens =
             (if cachedCount num r > 0 then Some (cachedCount num r) else None) \<rparr>"
    by blast
  from r show "0 \<le> gu_input_tokens u" by simp
  from r show "0 \<le> gu_output_tokens u" by simp
  from r show "\<exists>r. raw = Some r \<and> js_truthy r \<and> is_object r" by blast
  fix c assume "gu_cached_input_tokens u = Some c"
  with r show "0 < c" by (simp split: if_splits)
qed

lemma demo_objects:
  "js_truthy componentTokens \<and> is_object componentTokens"
  "js_truthy cachedTokens \<and> is_object cachedTokens"
  "js_truthy idleTokens \<and> is_object idleTokens"
  by (simp_all add: componentTokens_def cachedTokens_def idleTokens_def)

lemma demo_byRules:
  "inputByRules demoNumber componentTokens = 100 + 5"
  "outputByRules demoNumber componentTokens = 20 + 30"
  "cachedByRules demoNumber componentTokens = 0"
  "inputByRules demoNumber cachedTokens = 7 + 3"
  "outputByRules demoNumber cachedTokens = 0"
  "cachedByRules demoNumber cachedTokens = 5"
  "inputByRules demoNumber idleTokens = 0"
  "outputByRules demoNumber idleTokens = 0"
  "cachedByRules demoNumber idleTokens = 0"
  by code_simp+

text \<open>
  All component counts and nothing else: input 100 + 5, output 20 + 30, no cached field.
  Numeric strings and camel-case names: input 7 + 3, and the cached count 5 attached; the
  thoughts count 4 is dropped, there being no candidates count. Nothing positive: \<open>null\<close>.
\<close>

theorem extractGeminiUsage_rules_witness:
  "js_truthy componentTokens \<and> is_object componentTokens \<and>
   extractGeminiUsage demoNumber (Some componentTokens) =
     Some \<lparr> gu_input_tokens = 105, gu_output_tokens = 50, gu_cached_input_tokens = None \<rparr> \<and>
   js_truthy cachedTokens \<and> is_object cachedTokens \<and>
   extractGeminiUsage demoNumber (Some cachedTokens) =
     Some \<lparr> gu_input_tokens = 10, gu_output_tokens = 0, gu_cached_input_tokens = Some 5 \<rparr> \<and>
   js_truthy idleTokens \<and> is_object idleTokens \<and>
   extractGeminiUsage demoNumber (Some idleTokens) = None \<and>
   0 \<le> gu_input_tokens (the (extractGeminiUsage demoNumber (Some cachedTokens))) \<and>
   0 \<le> gu_output_tokens (the (extractGeminiUsage demoNumber (Some cachedTokens))) \<and>
   0 < the (gu_cached_input_tokens (the (extractGeminiUsage demoNumber (Some cachedTokens))))"
proof -
  note R = extractGeminiUsage_rules[THEN conjunct1, rule_format]
  note N = extractGeminiUsage_rules[THEN conjunct2, rule_format]
  have a: "extractGeminiUsage demoNumber (Some componentTokens) =
     Some \<lparr> gu_input_tokens = 105, gu_output_tokens = 50, gu_cached_input_tokens = None \<rparr>"
    using R[OF demo_objects(1), of demoNumber] by (simp add: demo_byRules)
  have b: "extractGeminiUsage demoNumber (Some cachedTokens) =
     Some \<lparr> gu_input_tokens = 10, gu_output_tokens = 0, gu_cached_input_tokens = Some 5 \<rparr>"
    using R[OF demo_objects(2), of demoNumber] by (simp add: demo_byRules)
  have c: "extractGeminiUsage demoNumber (Some idleTokens) = None"
    using R[OF demo_objects(3), of demoNumber] by (simp add: demo_byRules)
  from N[OF b] have
    "0 \<le> gu_input_tokens (the (extractGeminiUsage demoNumber (Some cachedTokens)))"
    "0 \<le> gu_output_tokens (the (extractGeminiUsage demoNumber (Some cachedTokens)))"
    "0 < the (gu_cached_input_tokens (the (extractGeminiUsage demoNumber (Some cachedTokens))))"
    by (simp_all add: b)
  with a b c demo_objects show ?thesis by simp
qed

text \<open>
  The claim as stated fails. With a prompt and a thoughts count only, the output is 0,
  not candidates plus thoughts (50): thoughts are added only where a candidates count is
  present. With a negative prompt count the input is 0, not prompt plus tool-use count.
\<close>

theorem extractGeminiUsage_derivation_counterexample:
  "extractGeminiUsage demoNumber (Some thoughtsOnlyTokens) =
     Some \<lparr> gu_input_tokens = 10, gu_output_tokens = 0, gu_cached_input_tokens = None \<rparr> \<and>
   extractGeminiUsage demoNumber (Some negativeTokens) =
     Some \<lparr> gu_input_tokens = 0, gu_output_tokens = 10, gu_cached_input_tokens = None \<rparr>"
  by code_simp

section \<open>The filter on loaded history\<close>

lemma validTypes_set: "set validTypes = closedKinds \<union> {''summary''}"
  by (auto simp: validTypes_def closedKinds_def)

lemma keepEntry_iff:
  "keepEntry e \<longleftrightarrow>
     (if truthy_str (mtype e) then the (mtype e) \<in> closedKinds \<union> {''summary''} else True)"
  unfolding keepEntry_def validTypes_set by simp

lemma fixKind_eq:
  "(e::ClaudeStreamMessage)\<lparr> mtype := (if truthy_str (mtype e) then mtype e else Some ''assistant'') \<rparr> =
   (if truthy_str (mtype e) then e else e\<lparr> mtype := Some ''assistant'' \<rparr>)"
  by simp

lemma loadedMessages_eq:
  "loadedMessages history =
     map (\<lambda>e. if truthy_str (mtype e) then e else e\<lparr> mtype := Some ''assistant'' \<rparr>)
       (filter (\<lambda>e. if truthy_str (mtype e) then the (mtype e) \<in> closedKinds \<union> {''summary''}
                    else True) history)"
  unfolding loadedMessages_def fixKind_eq
  by (simp add: keepEntry_iff[abs_def])

lemma loadedMessages_out:
  assumes "x \<in> set (loadedMessages history)"
  shows "truthy_str (mtype x) \<and> the (mtype x) \<in> closedKinds \<union> {''summary''}"
proof -
  from assms obtain e where e: "e \<in> set history" "keepEntry e"
    "x = e\<lparr> mtype := (if truthy_str (mtype e) then mtype e else Some ''assistant'') \<rparr>"
    unfolding loadedMessages_def by auto
  show ?thesis
  proof (cases "truthy_str (mtype e)")
    case True
    with e show ?thesis by (simp add: keepEntry_iff)
  next
    case False
    with e show ?thesis by (simp add: closedKinds_def)
  qed
qed

lemma loadedMessages_keeps:
  assumes "e \<in> set history" "keepEntry e"
  shows "e\<lparr> mtype := (if truthy_str (mtype e) then mtype e else Some ''assistant'') \<rparr>
           \<in> set (loadedMessages history)"
  using assms unfolding loadedMessages_def by auto

text \<open>
  Claim C8, as the code has it. The loaded sequence is the history without the records
  whose kind is a non-empty string outside the closed kind set extended by \<open>summary\<close>; a
  record without a kind (or with the empty string) is kept and becomes an \<open>assistant\<close>
  record; every other kept record is unchanged.
\<close>

theorem loadedMessages_kinds:
  "loadedMessages history =
     map (\<lambda>e. if truthy_str (mtype e) then e else e\<lparr> mtype := Some ''assistant'' \<rparr>)
       (filter (\<lambda>e. if truthy_str (mtype e) then the (mtype e) \<in> closedKinds \<union> {''summary''}
                    else True) history) \<and>
   (\<forall>e \<in> set history.
      truthy_str (mtype e) \<and> the (mtype e) \<notin> closedKinds \<union> {''summary''} \<longrightarrow>
      e \<notin> set (loadedMessages history)) \<and>
   (\<forall>e \<in> set history.
      truthy_str (mtype e) \<and> the (mtype e) \<in> closedKinds \<union> {''summary''} \<longrightarrow>
      e \<in> set (loadedMessages history)) \<and>
   (\<forall>e \<in> set history.
      \<not> truthy_str (mtype e) \<longrightarrow>
      e\<lparr> mtype := Some ''assistant'' \<rparr> \<in> set (loadedMessages history))"
proof (intro conjI ballI impI)
  show "loadedMessages history =
     map (\<lambda>e. if truthy_str (mtype e) then e else e\<lparr> mtype := Some ''assistant'' \<rparr>)
       (filter (\<lambda>e. if truthy_str (mtype e) then the (mtype e) \<in> closedKinds \<union> {''summary''}
                    else True) history)"
    by (rule loadedMessages_eq)
next
  fix e :: ClaudeStreamMessage
  assume "e \<in> set history"
    and "truthy_str (mtype e) \<and> the (mtype e) \<notin> closedKinds \<union> {''summary''}"
  then show "e \<notin> set (loadedMessages history)"
    using loadedMessages_out[of e history] by blast
next
  fix e assume e: "e \<in> set history"
    and k: "truthy_str (mtype e) \<and> the (mtype e) \<in> closedKinds \<union> {''summary''}"
  then have "keepEntry e" by (simp add: keepEntry_iff)
  moreover from k
  have "e\<lparr> mtype := (if truthy_str (mtype e) then mtype e else Some ''assistant'') \<rparr> = e"
    by simp
  ultimately show "e \<in> set (loadedMessages history)"
    using loadedMessages_keeps[OF e] by simp
next
  fix e assume e: "e \<in> set history" and k: "\<not> truthy_str (mtype e)"
  then have "keepEntry e" by (simp add: keepEntry_iff)
  from loadedMessages_keeps[OF e this] k
  show "e\<lparr> mtype := Some ''assistant'' \<rparr> \<in> set (loadedMessages history)"
    by simp
qed

lemma demoHistory_loaded:
  "loadedMessages demoHistory =
     [emptyMessage\<lparr> mtype := Some ''user'' \<rparr>,
      emptyMessage\<lparr> uuid := Some ''u1'', mtype := Some ''assistant'' \<rparr>,
      summaryEntry]"
  by code_simp

theorem loadedMessages_kinds_witness:
  "emptyMessage\<lparr> mtype := Some ''queue-operation'' \<rparr> \<in> set demoHistory \<and>
   emptyMessage\<lparr> mtype := Some ''queue-operation'' \<rparr> \<notin> set (loadedMessages demoHistory) \<and>
   emptyMessage\<lparr> mtype := Some ''user'' \<rparr> \<in> set demoHistory \<and>
   emptyMessage\<lparr> mtype := Some ''user'' \<rparr> \<in> set (loadedMessages demoHistory) \<and>
   emptyMessage\<lparr> uuid := Some ''u1'' \<rparr> \<in> set demoHistory \<and>
   emptyMessage\<lparr> uuid := Some ''u1'', mtype := Some ''assistant'' \<rparr>
     \<in> set (loadedMessages demoHistory)"
proof -
  note T = loadedMessages_kinds[of demoHistory]
  note T2 = T[THEN conjunct2, THEN conjunct1, rule_format]
  note T3 = T[THEN conjunct2, THEN conjunct2, THEN conjunct1, rule_format]
  note T4 = T[THEN conjunct2, THEN conjunct2, THEN conjunct2, rule_format]
  have q: "emptyMessage\<lparr> mtype := Some ''queue-operation'' \<rparr> \<in> set demoHistory"
    and u: "emptyMessage\<lparr> mtype := Some ''user'' \<rparr> \<in> set demoHistory"
    and n: "emptyMessage\<lparr> uuid := Some ''u1'' \<rparr> \<in> set demoHistory"
    by (simp_all add: demoHistory_def)
  have "emptyMessage\<lparr> mtype := Some ''queue-operation'' \<rparr> \<notin> set (loadedMessages demoHistory)"
    by (rule T2[OF q]) (simp add: closedKinds_def emptyMessage_def)
  moreover have "emptyMessage\<lparr> mtype := Some ''user'' \<rparr> \<in> set (loadedMessages demoHistory)"
    by (rule T3[OF u]) (simp add: closedKinds_def emptyMessage_def)
  moreover have "emptyMessage\<lparr> uuid := Some ''u1'', mtype := Some ''assistant'' \<rparr>
     \<in> set (loadedMessages demoHistory)"
    by (rule T4[OF n]) (simp add: emptyMessage_def)
  ultimately show ?thesis using q u n by blast
qed

text \<open>
  The claim as stated fails on a \<open>summary\<close> record: its kind is outside the closed kind
  set, and it is kept.
\<close>

theorem loadedMessages_summary_counterexample:
  "mtype summaryEntry = Some ''summary'' \<and> ''summary'' \<notin> closedKinds \<and>
   loadedMessages [summaryEntry] = [summaryEntry]"
  by (simp add: loadedMessages_def keepEntry_def validTypes_def summaryEntry_def
      emptyMessage_def closedKinds_def)

section \<open>The Gemini conversion\<close>

lemma scenario_usage:
  "extractGeminiUsage num
     (Some (JObj [(''prompt'', JNum 100), (''candidates'', JNum 20), (''cached'', JNum 0)])) =
   Some \<lparr> gu_input_tokens = 100, gu_output_tokens = 20, gu_cached_input_tokens = None \<rparr>"
  by (simp add: extractGeminiUsage_def derivedInput_def derivedOutput_def inputFromStats_def
      outputFromStats_def promptCount_def candidatesCount_def toolCount_def thoughtsCount_def
      cachedCount_def toNumber_def)

lemma scenario_usageObject:
  "usageObject \<lparr> gu_input_tokens = 100, gu_output_tokens = 20, gu_cached_input_tokens = None \<rparr> =
   JObj [(''input_tokens'', JNum 100), (''output_tokens'', JNum 20)]"
  by (simp add: usageObject_def)

lemma convert_user_turn:
  "convertDetailMessage num stringify (scenarioUserTurn turnId time) converted =
   converted @ [userTextMessage time ''fix bug'']"
  by (simp add: convertDetailMessage_def scenarioUserTurn_def userTextMessage_def)

lemma convert_model_turn:
  "convertDetailMessage num stringify
     (scenarioModelTurn turnId time (scenarioToolCall callId args res status callTime) mdl)
     converted =
   converted @
   (case res of
      None \<Rightarrow> []
    | Some r \<Rightarrow>
        [toolResultUserMessage (if truthy_str callTime then callTime else Some time) callId
           (toolResultContent stringify (scenarioToolCall callId args res status callTime) r)
           (status = Some ''error'')]) @
   [assistantMessage time mdl
      [toolUseBlock (scenarioToolCall callId args res status callTime), textBlock ''Fixed it''],
    resultMessage time mdl (JObj [(''input_tokens'', JNum 100), (''output_tokens'', JNum 20)])]"
  by (cases res)
     (simp_all add: convertDetailMessage_def scenarioModelTurn_def scenarioToolCall_def
        convertToolCall_def toolResultMessage_def
        toolResultUserMessage_def assistantMessage_def resultMessage_def
        scenario_usage scenario_usageObject Let_def)

lemma agreed_content:
  "resultContent r = JStr ''ok'' \<Longrightarrow>
   toolResultContent stringify (scenarioToolCall callId args res status callTime) r = ''ok''"
  by (simp add: toolResultContent_def scenarioToolCall_def)

text \<open>
  Claim C3, as the code has it. On the scenario as worded, with no \<open>result\<close> field on the
  tool call, the conversion yields three messages: the user text message, one assistant
  message whose content is the \<open>tool_use\<close> block followed by the text block \<open>Fixed it\<close>,
  and the \<open>result\<close> message with usage \<open>{input_tokens: 100, output_tokens: 20}\<close>. Where
  the tool call has a result, one synthesized \<open>tool_result\<close> user message stands between
  the user message and the assistant message; its content is \<open>ok\<close> where the output of
  the result is the string \<open>ok\<close> as well. What the content is where the output and the
  display summary differ is not part of this statement.
\<close>

theorem gemini_scenario_conversion:
  "convertGeminiSessionDetailToClaudeMessages num stringify
     (scenarioDetail (scenarioUserTurn userId userTime)
        (scenarioModelTurn modelId modelTime
           (scenarioToolCall callId args None status callTime) mdl)) =
   [userTextMessage userTime ''fix bug'',
    assistantMessage modelTime mdl
      [toolUseBlock (scenarioToolCall callId args None status callTime), textBlock ''Fixed it''],
    resultMessage modelTime mdl
      (JObj [(''input_tokens'', JNum 100), (''output_tokens'', JNum 20)])] \<and>
   (\<exists>shown.
      convertGeminiSessionDetailToClaudeMessages num stringify
        (scenarioDetail (scenarioUserTurn userId userTime)
           (scenarioModelTurn modelId modelTime
              (scenarioToolCall callId args (Some r) status callTime) mdl)) =
      [userTextMessage userTime ''fix bug'',
       toolResultUserMessage (if truthy_str callTime then callTime else Some modelTime) callId
         shown (status = Some ''error''),
       assistantMessage modelTime mdl
         [toolUseBlock (scenarioToolCall callId args (Some r) status callTime),
          textBlock ''Fixed it''],
       resultMessage modelTime mdl
         (JObj [(''input_tokens'', JNum 100), (''output_tokens'', JNum 20)])] \<and>
      (resultContent r = JStr ''ok'' \<longrightarrow> shown = ''ok''))"
proof (intro conjI)
  show "convertGeminiSessionDetailToClaudeMessages num stringify
     (scenarioDetail (scenarioUserTurn userId userTime)
        (scenarioModelTurn modelId modelTime
           (scenarioToolCall callId args None status callTime) mdl)) =
   [userTextMessage userTime ''fix bug'',
    assistantMessage modelTime mdl
      [toolUseBlock (scenarioToolCall callId args None status callTime), textBlock ''Fixed it''],
    resultMessage modelTime mdl
      (JObj [(''input_tokens'', JNum 100), (''output_tokens'', JNum 20)])]"
    by (simp add: convertGeminiSessionDetailToClaudeMessages_def scenarioDetail_def
        convert_user_turn convert_model_turn)
next
  let ?shown = "toolResultContent stringify (scenarioToolCall callId args (Some r) status callTime) r"
  have "convertGeminiSessionDetailToClaudeMessages num stringify
        (scenarioDetail (scenarioUserTurn userId userTime)
           (scenarioModelTurn modelId modelTime
              (scenarioToolCall callId args (Some r) status callTime) mdl)) =
      [userTextMessage userTime ''fix bug'',
       toolResultUserMessage (if truthy_str callTime then callTime else Some modelTime) callId
         ?shown (status = Some ''error''),
       assistantMessage modelTime mdl
         [toolUseBlock (scenarioToolCall callId args (Some r) status callTime),
          textBlock ''Fixed it''],
       resultMessage modelTime mdl
         (JObj [(''input_tokens'', JNum 100), (''output_tokens'', JNum 20)])]"
    by (simp add: convertGeminiSessionDetailToClaudeMessages_def scenarioDetail_def
        convert_user_turn convert_model_turn)
  moreover have "resultContent r = JStr ''ok'' \<longrightarrow> ?shown = ''ok''"
    by (simp add: agreed_content)
  ultimately show "\<exists>shown.
      convertGeminiSessionDetailToClaudeMessages num stringify
        (scenarioDetail (scenarioUserTurn userId userTime)
           (scenarioModelTurn modelId modelTime
              (scenarioToolCall callId args (Some r) status callTime) mdl)) =
      [userTextMessage userTime ''fix bug'',
       toolResultUserMessage (if truthy_str callTime then callTime else Some modelTime) callId
         shown (status = Some ''error''),
       assistantMessage modelTime mdl
         [toolUseBlock (scenarioToolCall callId args (Some r) status callTime),
          textBlock ''Fixed it''],
       resultMessage modelTime mdl
         (JObj [(''input_tokens'', JNum 100), (''output_tokens'', JNum 20)])] \<and>
      (resultContent r = JStr ''ok'' \<longrightarrow> shown = ''ok'')"
    by blast
qed

theorem gemini_scenario_conversion_witness:
  "convertGeminiSessionDetailToClaudeMessages demoNumber demoStringify bareScenario =
   [userTextMessage ''T1'' ''fix bug'',
    assistantMessage ''T2'' (Some ''gemini-2.5-pro'')
      [toolUseBlock (scenarioToolCall ''call1'' (JObj [(''path'', JStr ''a.ts'')])
                       None (Some ''success'') None),
       textBlock ''Fixed it''],
    resultMessage ''T2'' (Some ''gemini-2.5-pro'')
      (JObj [(''input_tokens'', JNum 100), (''output_tokens'', JNum 20)])] \<and>
   resultContent (JStr ''ok'') = JStr ''ok'' \<and>
   convertGeminiSessionDetailToClaudeMessages demoNumber demoStringify agreedScenario =
   [userTextMessage ''T1'' ''fix bug'',
    toolResultUserMessage (Some ''T2'') ''call1'' ''ok'' False,
    assistantMessage ''T2'' (Some ''gemini-2.5-pro'')
      [toolUseBlock (scenarioToolCall ''call1'' (JObj [(''path'', JStr ''a.ts'')])
                       (Some (JStr ''ok'')) (Some ''success'') None),
       textBlock ''Fixed it''],
    resultMessage ''T2'' (Some ''gemini-2.5-pro'')
      (JObj [(''input_tokens'', JNum 100), (''output_tokens'', JNum 20)])]"
proof -
  note T = gemini_scenario_conversion[of demoNumber demoStringify "''m1''" "''T1''" "''m2''"
      "''T2''" "''call1''" "JObj [(''path'', JStr ''a.ts'')]" "Some ''success''" None
      "Some ''gemini-2.5-pro''" "JStr ''ok''"]
  have rc: "resultContent (JStr ''ok'') = JStr ''ok''" by (simp add: resultContent_def)
  from T have 1: "convertGeminiSessionDetailToClaudeMessages demoNumber demoStringify bareScenario =
   [userTextMessage ''T1'' ''fix bug'',
    assistantMessage ''T2'' (Some ''gemini-2.5-pro'')
      [toolUseBlock (scenarioToolCall ''call1'' (JObj [(''path'', JStr ''a.ts'')])
                       None (Some ''success'') None),
       textBlock ''Fixed it''],
    resultMessage ''T2'' (Some ''gemini-2.5-pro'')
      (JObj [(''input_tokens'', JNum 100), (''output_tokens'', JNum 20)])]"
    unfolding bareScenario_def by blast
  from T rc obtain shown where
    "convertGeminiSessionDetailToClaudeMessages demoNumber demoStringify agreedScenario =
      [userTextMessage ''T1'' ''fix bug'',
       toolResultUserMessage (if truthy_str None then None else Some ''T2'') ''call1''
         shown (Some ''success'' = Some ''error''),
       assistantMessage ''T2'' (Some ''gemini-2.5-pro'')
         [toolUseBlock (scenarioToolCall ''call1'' (JObj [(''path'', JStr ''a.ts'')])
                          (Some (JStr ''ok'')) (Some ''success'') None),
          textBlock ''Fixed it''],
       resultMessage ''T2'' (Some ''gemini-2.5-pro'')
         (JObj [(''input_tokens'', JNum 100), (''output_tokens'', JNum 20)])]"
    and "shown = ''ok''"
    unfolding agreedScenario_def by blast
  then have 2: "convertGeminiSessionDetailToClaudeMessages demoNumber demoStringify agreedScenario =
   [userTextMessage ''T1'' ''fix bug'',
    toolResultUserMessage (Some ''T2'') ''call1'' ''ok'' False,
    assistantMessage ''T2'' (Some ''gemini-2.5-pro'')
      [toolUseBlock (scenarioToolCall ''call1'' (JObj [(''path'', JStr ''a.ts'')])
                       (Some (JStr ''ok'')) (Some ''success'') None),
       textBlock ''Fixed it''],
    resultMessage ''T2'' (Some ''gemini-2.5-pro'')
      (JObj [(''input_tokens'', JNum 100), (''output_tokens'', JNum 20)])]"
    by simp
  from 1 rc 2 show ?thesis by blast
qed

text \<open>
  The claim as stated fails on the scenario. As worded, the tool call has no result and
  the output has three messages, none of them a \<open>tool_result\<close>. With the result \<open>ok\<close> the
  output has four messages, not five: the \<open>tool_result\<close> message is the second one, before
  the only assistant message, which carries both the \<open>tool_use\<close> block and the narrative.
\<close>

theorem gemini_scenario_counterexample:
  "map mtype (convertGeminiSessionDetailToClaudeMessages demoNumber demoStringify bareScenario) =
     [Some ''user'', Some ''assistant'', Some ''result''] \<and>
   map blockKinds (convertGeminiSessionDetailToClaudeMessages demoNumber demoStringify bareScenario) =
     [[Some ''text''], [Some ''tool_use'', Some ''text''], []] \<and>
   map mtype (convertGeminiSessionDetailToClaudeMessages demoNumber demoStringify agreedScenario) =
     [Some ''user'', Some ''user'', Some ''assistant'', Some ''result''] \<and>
   map blockKinds (convertGeminiSessionDetailToClaudeMessages demoNumber demoStringify agreedScenario) =
     [[Some ''text''], [Some ''tool_result''], [Some ''tool_use'', Some ''text''], []]"
  by code_simp

text \<open>
  Claim C4 is about the \<open>content\<close> of the synthesized \<open>tool_result\<close> block. The code
  takes the display summary whenever it is a non-empty string, whatever the result holds.
\<close>

theorem toolResultContent_display_first:
  "truthy_str (tc_resultDisplay toolCall) \<Longrightarrow>
   toolResultContent stringify toolCall result = the (tc_resultDisplay toolCall)"
  by (simp add: toolResultContent_def)

theorem toolResultContent_display_first_witness:
  "truthy_str (tc_resultDisplay functionResponseCall) \<and>
   resultContent (the (tc_result functionResponseCall)) = JStr ''full output'' \<and>
   toolResultContent demoStringify functionResponseCall (the (tc_result functionResponseCall)) =
     ''summary'' \<and>
   convertGeminiSessionDetailToClaudeMessages demoNumber demoStringify functionResponseDetail =
     [toolResultUserMessage (Some ''T2'') ''call1'' ''summary'' False,
      assistantMessage ''T2'' None [toolUseBlock functionResponseCall]]"
proof -
  have t: "truthy_str (tc_resultDisplay functionResponseCall)"
    by (simp add: functionResponseCall_def)
  have r: "resultContent (the (tc_result functionResponseCall)) = JStr ''full output''"
    by (simp add: functionResponseCall_def resultContent_def)
  have c: "toolResultContent demoStringify functionResponseCall
             (the (tc_result functionResponseCall)) = ''summary''"
    using toolResultContent_display_first[OF t, of demoStringify
        "the (tc_result functionResponseCall)"]
    by (simp add: functionResponseCall_def)
  have d: "convertGeminiSessionDetailToClaudeMessages demoNumber demoStringify
             functionResponseDetail =
     [toolResultUserMessage (Some ''T2'') ''call1'' ''summary'' False,
      assistantMessage ''T2'' None [toolUseBlock functionResponseCall]]"
    by code_simp
  from t r c d show ?thesis by blast
qed

section \<open>The race guard of the history load\<close>

lemma beginLoad_ref [simp]: "loadingSessionIdRef (beginLoad session s) = Some (session_id session)"
  by (simp add: beginLoad_def)

lemma publishHistory_superseded:
  "loadingSessionIdRef s \<noteq> Some (session_id session) \<Longrightarrow>
   publishHistory env session history s = s"
  by (simp add: publishHistory_def Let_def)

lemma failLoad_superseded:
  "loadingSessionIdRef s \<noteq> Some (session_id session) \<Longrightarrow>
   failLoad env session errorMessage s = s"
  by (simp add: failLoad_def)

text \<open>
  The guard works for a failed fetch, for a Gemini session and for a history that is not
  a Codex one: a completion that is no longer the latest request leaves the state as it
  is.
\<close>

lemma completeLoad_superseded_discarded:
  assumes "loadingSessionIdRef s \<noteq> Some (session_id session)"
    and "session_engine session \<noteq> Some ''codex'' \<or> (\<forall>history. outcome \<noteq> FetchedHistory history)"
  shows "completeLoad env session outcome s = s"
  using assms
  by (cases outcome)
     (auto simp: completeLoad_def publishHistory_superseded failLoad_superseded)

text \<open>The latest request is applied when its fetch settles (component still mounted).\<close>

lemma completeLoad_latest_applied:
  assumes "loadingSessionIdRef s = Some (session_id session)" and "isMountedRef s"
    and "session_engine session \<noteq> Some ''codex''"
  shows "completeLoad env session (FetchedHistory history) s =
     s\<lparr> shownMessages := map (processMessage (normalizeUsageData env)) (loadedMessages history),
        rawJsonlOutput := map (stringifyMessage env)
          (map (\<lambda>entry. if keepEntry entry
                         then normalizeNested (normalizeUsageData env) entry else entry) history),
        isLoading := False \<rparr>"
  using assms by (simp add: completeLoad_def publishHistory_def Let_def)

text \<open>
  Claim C9 on a Codex session. Request A, then request B before A resolves, then A's
  history arrives: the state differs from the state before in the converter (reset and
  run over A's events) and in the rate limits (set from it, where the setter is
  configured), although B is the latest request.
\<close>

theorem completeLoad_superseded_codex:
  assumes "session_engine a = Some ''codex''" and "session_id b \<noteq> session_id a"
  shows "completeLoad env a (FetchedHistory history) (beginLoad b (beginLoad a s)) =
     (beginLoad b (beginLoad a s))
       \<lparr> codexConverter :=
           snd (fold (convertEvent env) history ([], converterReset env (codexConverter s))),
         codexRateLimits :=
           (if hasSetCodexRateLimits env
            then getRateLimits env
                   (snd (fold (convertEvent env) history
                           ([], converterReset env (codexConverter s))))
            else codexRateLimits s) \<rparr>"
proof -
  let ?s2 = "beginLoad b (beginLoad a s)"
  let ?st = "fold (convertEvent env) history ([], converterReset env (codexConverter ?s2))"
  have c: "codexConverter ?s2 = codexConverter s" "codexRateLimits ?s2 = codexRateLimits s"
    by (simp_all add: beginLoad_def)
  have r: "loadingSessionIdRef (?s2\<lparr> codexConverter := snd ?st \<rparr>) \<noteq> Some (session_id a)"
    "loadingSessionIdRef (?s2\<lparr> codexConverter := snd ?st,
        codexRateLimits := getRateLimits env (snd ?st) \<rparr>) \<noteq> Some (session_id a)"
    using assms(2) by simp_all
  show ?thesis
  proof (cases "hasSetCodexRateLimits env")
    case True
    then show ?thesis
      using assms(1) publishHistory_superseded[OF r(2)] c
      by (simp add: completeLoad_def Let_def)
  next
    case False
    then show ?thesis
      using assms(1) publishHistory_superseded[OF r(1)] c
      by (simp add: completeLoad_def Let_def)
  qed
qed

theorem completeLoad_superseded_codex_witness:
  "session_engine sessionA = Some ''codex'' \<and> session_id sessionB \<noteq> session_id sessionA \<and>
   codexRateLimits (beginLoad sessionB (beginLoad sessionA idleState)) = 0 \<and>
   codexRateLimits (completeLoad demoEnv sessionA (FetchedHistory historyA)
                      (beginLoad sessionB (beginLoad sessionA idleState))) = 2 \<and>
   loadingSessionIdRef (completeLoad demoEnv sessionA (FetchedHistory historyA)
                          (beginLoad sessionB (beginLoad sessionA idleState))) = Some ''B''"
proof -
  have e: "session_engine sessionA = Some ''codex''" by (simp add: sessionA_def)
  have d: "session_id sessionB \<noteq> session_id sessionA" by (simp add: sessionA_def sessionB_def)
  have f: "snd (fold (convertEvent demoEnv) historyA
                  ([], converterReset demoEnv (codexConverter idleState))) = 2"
    by (simp add: historyA_def convertEvent_def demoEnv_def)
  have h: "hasSetCodexRateLimits demoEnv" "getRateLimits demoEnv = (\<lambda>cs. cs)"
    by (simp_all add: demoEnv_def)
  have b0: "codexRateLimits (beginLoad sessionB (beginLoad sessionA idleState)) = 0"
    by (simp add: beginLoad_def idleState_def)
  from completeLoad_superseded_codex[OF e d, of demoEnv historyA idleState] f h
  have "completeLoad demoEnv sessionA (FetchedHistory historyA)
          (beginLoad sessionB (beginLoad sessionA idleState)) =
        (beginLoad sessionB (beginLoad sessionA idleState))
          \<lparr> codexConverter := 2, codexRateLimits := 2 \<rparr>"
    by simp
  then show ?thesis using e d b0 by (simp add: sessionB_def)
qed

section \<open>The grouping: narrative messages stand alone\<close>

subsection \<open>The classification\<close>

lemma trim_Nil [simp]: "trim [] = []"
  by (simp add: trim_def)




subsection \<open>The fourth pass\<close>











subsection \<open>The third pass\<close>







subsection \<open>The first pass\<close>

lemma recordTask_fields:
  "indexToTaskIds (recordTask m index details taskId st) = indexToTaskIds st"
  "taskToolUseMap (recordTask m index details taskId st) =
     AList.update taskId (m, index) (taskToolUseMap st)"
  by (auto simp: recordTask_def Let_def split: option.splits)

lemma fold_recordTask_fields:
  "indexToTaskIds (fold (recordTask m index details) taskIds st) = indexToTaskIds st"
  "taskToolUseMap (fold (recordTask m index details) taskIds st) =
     fold (\<lambda>t. AList.update t (m, index)) taskIds (taskToolUseMap st)"
  by (induction taskIds arbitrary: st) (simp_all add: recordTask_fields)

lemma identifyTasks_fields:
  "indexToTaskIds (identifyTasks (i, m) st) =
     (if extractTaskToolUseIds m \<noteq> []
      then AList.update i (extractTaskToolUseIds m) (indexToTaskIds st)
      else indexToTaskIds st)"
  "taskToolUseMap (identifyTasks (i, m) st) =
     fold (\<lambda>t. AList.update t (m, i)) (extractTaskToolUseIds m) (taskToolUseMap st)"
  by (simp_all add: identifyTasks_def Let_def fold_recordTask_fields)

lemma firstPass_snoc:
  "firstPass (ms @ [m]) = identifyTasks (length ms, m) (firstPass ms)"
  by (simp add: firstPass_def enumerate_append_eq)

lemma firstPass_Nil:
  "indexToTaskIds (firstPass []) = []" "taskToolUseMap (firstPass []) = []"
  by (simp_all add: firstPass_def)

lemma indexToTaskIds_lookup:
  "map_of (indexToTaskIds (firstPass ms)) i =
     (if i < length ms \<and> extractTaskToolUseIds (ms ! i) \<noteq> []
      then Some (extractTaskToolUseIds (ms ! i)) else None)"
proof (induction ms rule: rev_induct)
  case Nil
  show ?case by (simp add: firstPass_Nil)
next
  case (snoc m ms)
  show ?case
  proof (cases "i < length ms")
    case True
    with snoc show ?thesis
      by (simp add: firstPass_snoc identifyTasks_fields update_conv' nth_append)
  next
    case False
    with snoc show ?thesis
      by (cases "i = length ms")
         (simp_all add: firstPass_snoc identifyTasks_fields update_conv' nth_append)
  qed
qed

subsection \<open>The processed indices\<close>

lemma processedIndices_iff:
  "i \<in> set (processedIndices ms groups) \<longleftrightarrow> i < length ms \<and> isProcessed groups (ms ! i)"
  by (auto simp: processedIndices_def in_set_enumerate_eq image_iff)







section \<open>The grouping: parallel spawns\<close>

subsection \<open>The Task map of the first pass\<close>

lemma fold_update_const:
  "map_of (fold (\<lambda>t. AList.update t v) ts M) k = (if k \<in> set ts then Some v else map_of M k)"
  by (induction ts arbitrary: M) (auto simp: update_conv')

lemma fold_update_distinct:
  "distinct (map fst M) \<Longrightarrow> distinct (map fst (fold (\<lambda>t. AList.update t v) ts M))"
  by (induction ts arbitrary: M) (auto simp: distinct_update)

lemma taskToolUseMap_distinct: "distinct (map fst (taskToolUseMap (firstPass ms)))"
  by (induction ms rule: rev_induct)
     (simp_all add: firstPass_Nil firstPass_snoc identifyTasks_fields fold_update_distinct)

text \<open>The entry of a Task id is the last message that issues it.\<close>

lemma taskToolUseMap_lookup:
  "map_of (taskToolUseMap (firstPass ms)) k = Some (m, i) \<Longrightarrow>
     i < length ms \<and> m = ms ! i \<and> k \<in> set (extractTaskToolUseIds (ms ! i))"
proof (induction ms rule: rev_induct)
  case Nil
  then show ?case by (simp add: firstPass_Nil)
next
  case (snoc x xs)
  show ?case
  proof (cases "k \<in> set (extractTaskToolUseIds x)")
    case True
    with snoc.prems show ?thesis
      by (auto simp: firstPass_snoc identifyTasks_fields fold_update_const)
  next
    case False
    with snoc.prems have "map_of (taskToolUseMap (firstPass xs)) k = Some (m, i)"
      by (simp add: firstPass_snoc identifyTasks_fields fold_update_const)
    from snoc.IH[OF this] show ?thesis by (auto simp: nth_append)
  qed
qed

lemma taskToolUseMap_defined:
  "i < length ms \<Longrightarrow> k \<in> set (extractTaskToolUseIds (ms ! i)) \<Longrightarrow>
   map_of (taskToolUseMap (firstPass ms)) k \<noteq> None"
proof (induction ms rule: rev_induct)
  case Nil
  then show ?case by simp
next
  case (snoc x xs)
  show ?case
  proof (cases "k \<in> set (extractTaskToolUseIds x)")
    case True
    then show ?thesis by (simp add: firstPass_snoc identifyTasks_fields fold_update_const)
  next
    case False
    with snoc.prems have "i < length xs" "k \<in> set (extractTaskToolUseIds (xs ! i))"
      by (auto simp: nth_append less_Suc_eq)
    from snoc.IH[OF this] False show ?thesis
      by (simp add: firstPass_snoc identifyTasks_fields fold_update_const)
  qed
qed

subsection \<open>The groups of the second pass\<close>

lemma map_snd_filter_enumerate:
  "map snd (filter (\<lambda>im. P (snd im)) (enumerate n xs)) = filter P xs"
  by (induction xs arbitrary: n) auto

lemma attributed_messages:
  "map snd (attributed ms k i) =
     filter (\<lambda>m. getParentToolUseId m = Some k) (drop (i + 1) ms)"
  unfolding attributed_def
  by (rule map_snd_filter_enumerate[of "\<lambda>m. getParentToolUseId m = Some k"])

lemma collectGroup_lookup:
  "map_of (collectGroup ms types (k', info) G) k =
     (if k = k' \<and> attributed ms k' (snd info) \<noteq> []
      then Some \<lparr> group_id = k', taskMessage = fst info, taskToolUseId = k',
                  subagentMessages = map snd (attributed ms k' (snd info)),
                  startIndex = snd info,
                  endIndex = fold (\<lambda>im mx. max mx (fst im)) (attributed ms k' (snd info))
                               (snd info),
                  subagentType = map_of types k' \<rparr>
      else map_of G k)"
  by (simp add: collectGroup_def Let_def update_conv')

lemma fold_collectGroup_lookup:
  "distinct (map fst tmap) \<Longrightarrow>
   map_of (fold (collectGroup ms types) tmap G) k =
     (case map_of tmap k of
        None \<Rightarrow> map_of G k
      | Some info \<Rightarrow>
          if attributed ms k (snd info) \<noteq> []
          then Some \<lparr> group_id = k, taskMessage = fst info, taskToolUseId = k,
                      subagentMessages = map snd (attributed ms k (snd info)),
                      startIndex = snd info,
                      endIndex = fold (\<lambda>im mx. max mx (fst im)) (attributed ms k (snd info))
                                   (snd info),
                      subagentType = map_of types k \<rparr>
          else map_of G k)"
proof (induction tmap arbitrary: G)
  case Nil
  show ?case by simp
next
  case (Cons entry tmap)
  obtain k' info where entry: "entry = (k', info)" by (cases entry)
  from Cons.prems entry have d: "distinct (map fst tmap)" and nk: "k' \<notin> fst ` set tmap"
    by simp_all
  from nk have none: "map_of tmap k' = None" by (simp add: map_of_eq_None_iff)
  note ih = Cons.IH[OF d]
  show ?case
  proof (cases "k = k'")
    case True
    with none have n: "map_of tmap k = None" by simp
    from True entry have entry': "entry = (k, info)" by simp
    have "map_of (fold (collectGroup ms types) (entry # tmap) G) k =
          map_of (collectGroup ms types (k, info) G) k"
      by (simp add: entry' ih n)
    also have "\<dots> = (if attributed ms k (snd info) \<noteq> []
      then Some \<lparr> group_id = k, taskMessage = fst info, taskToolUseId = k,
                  subagentMessages = map snd (attributed ms k (snd info)),
                  startIndex = snd info,
                  endIndex = fold (\<lambda>im mx. max mx (fst im)) (attributed ms k (snd info))
                               (snd info),
                  subagentType = map_of types k \<rparr>
      else map_of G k)"
      by (simp add: collectGroup_lookup)
    finally show ?thesis by (simp add: entry' n)
  next
    case False
    then have cg: "map_of (collectGroup ms types (k', info) G) k = map_of G k"
      by (simp add: collectGroup_lookup)
    have "map_of (fold (collectGroup ms types) (entry # tmap) G) k =
          map_of (fold (collectGroup ms types) tmap (collectGroup ms types (k', info) G)) k"
      by (simp add: entry)
    also note ih[of "collectGroup ms types (k', info) G"]
    finally show ?thesis using False unfolding cg by (simp add: entry)
  qed
qed

lemma subagentGroupsOf_lookup:
  "map_of (subagentGroupsOf ms) k =
     (case map_of (taskToolUseMap (firstPass ms)) k of
        None \<Rightarrow> None
      | Some info \<Rightarrow>
          if attributed ms k (snd info) \<noteq> []
          then Some \<lparr> group_id = k, taskMessage = fst info, taskToolUseId = k,
                      subagentMessages = map snd (attributed ms k (snd info)),
                      startIndex = snd info,
                      endIndex = fold (\<lambda>im mx. max mx (fst im)) (attributed ms k (snd info))
                                   (snd info),
                      subagentType = map_of (taskSubagentTypes (firstPass ms)) k \<rparr>
          else None)"
  unfolding subagentGroupsOf_def secondPass_def
  by (simp add: fold_collectGroup_lookup[OF taskToolUseMap_distinct] split: option.splits)
subsection \<open>One spawning message followed by its sub-agent messages\<close>

lemma fold_buildIntermediate_skip:
  "\<forall>im \<in> set ims. fst im \<in> set processed \<Longrightarrow>
   fold (buildIntermediate processed idxTasks groups) ims st = st"
  by (induction ims arbitrary: st) (simp_all add: buildIntermediate_def)

lemma fourthPass_two_groups:
  "fourthPass [Subagent g1, Subagent g2] = [Subagent g1, Subagent g2]"
  by (simp add: fourthPass_def closeAggregation_def)

lemma parallel_spawn_groups:
  assumes ids: "extractTaskToolUseIds a = [t1, t2]" and ne: "t1 \<noteq> t2"
    and pa: "getParentToolUseId a \<noteq> Some t1" "getParentToolUseId a \<noteq> Some t2"
    and par: "\<forall>r \<in> set rest. getParentToolUseId r = Some t1 \<or> getParentToolUseId r = Some t2"
    and nospawn: "\<forall>r \<in> set rest. t1 \<notin> set (extractTaskToolUseIds r) \<and>
                                  t2 \<notin> set (extractTaskToolUseIds r)"
    and ex1: "filter (\<lambda>r. getParentToolUseId r = Some t1) rest \<noteq> []"
    and ex2: "filter (\<lambda>r. getParentToolUseId r = Some t2) rest \<noteq> []"
  shows "\<exists>e1 e2.
     groupMessages (a # rest) =
       [Subagent \<lparr> group_id = t1, taskMessage = a, taskToolUseId = t1,
                   subagentMessages = filter (\<lambda>r. getParentToolUseId r = Some t1) rest,
                   startIndex = 0, endIndex = e1,
                   subagentType = map_of (taskSubagentTypes (firstPass (a # rest))) t1 \<rparr>,
        Subagent \<lparr> group_id = t2, taskMessage = a, taskToolUseId = t2,
                   subagentMessages = filter (\<lambda>r. getParentToolUseId r = Some t2) rest,
                   startIndex = 0, endIndex = e2,
                   subagentType = map_of (taskSubagentTypes (firstPass (a # rest))) t2 \<rparr>]"
proof -
  let ?ms = "a # rest"
  let ?st = "firstPass ?ms"
  let ?T = "taskToolUseMap ?st"
  let ?G = "subagentGroupsOf ?ms"
  let ?P = "processedIndices ?ms ?G"
  define g where "g k = \<lparr> group_id = k, taskMessage = a, taskToolUseId = k,
       subagentMessages = map snd (attributed ?ms k 0), startIndex = 0,
       endIndex = fold (\<lambda>im mx. max mx (fst im)) (attributed ?ms k 0) 0,
       subagentType = map_of (taskSubagentTypes ?st) k \<rparr>" for k
  have entry: "map_of ?T k = Some (a, 0)"
    if k: "k \<in> set (extractTaskToolUseIds a)"
      and nk: "\<forall>r \<in> set rest. k \<notin> set (extractTaskToolUseIds r)" for k
  proof -
    from taskToolUseMap_defined[of 0 ?ms k] k obtain m i where mi: "map_of ?T k = Some (m, i)"
      by auto
    from taskToolUseMap_lookup[OF mi]
    have i: "i < length ?ms" "m = ?ms ! i" "k \<in> set (extractTaskToolUseIds (?ms ! i))"
      by simp_all
    have "i = 0"
    proof (rule ccontr)
      assume "i \<noteq> 0"
      with i(1) have "?ms ! i \<in> set rest" by (cases i) simp_all
      with nk i(3) show False by blast
    qed
    with mi i(2) show ?thesis by simp
  qed
  have e1: "map_of ?T t1 = Some (a, 0)" and e2: "map_of ?T t2 = Some (a, 0)"
    using entry[of t1] entry[of t2] ids nospawn by simp_all
  have att: "map snd (attributed ?ms k 0) = filter (\<lambda>m. getParentToolUseId m = Some k) rest" for k
    by (simp add: attributed_messages)
  have ne1: "attributed ?ms t1 0 \<noteq> []" and ne2: "attributed ?ms t2 0 \<noteq> []"
    using att[of t1] att[of t2] ex1 ex2 by auto
  have G1: "map_of ?G t1 = Some (g t1)" and G2: "map_of ?G t2 = Some (g t2)"
    using e1 e2 ne1 ne2 by (simp_all add: subagentGroupsOf_lookup g_def)
  have Gother: "map_of ?G k = None" if "k \<noteq> t1" "k \<noteq> t2" for k
  proof (cases "map_of ?T k")
    case None
    then show ?thesis by (simp add: subagentGroupsOf_lookup)
  next
    case (Some info)
    have sub: "set (drop (snd info + 1) ?ms) \<subseteq> set rest"
      using set_drop_subset[of "snd info" rest] by simp
    have "getParentToolUseId m \<noteq> Some k" if "m \<in> set (drop (snd info + 1) ?ms)" for m
    proof -
      from that sub have "m \<in> set rest" by blast
      with par have "getParentToolUseId m = Some t1 \<or> getParentToolUseId m = Some t2" by blast
      with \<open>k \<noteq> t1\<close> \<open>k \<noteq> t2\<close> show ?thesis by auto
    qed
    then have "filter (\<lambda>m. getParentToolUseId m = Some k) (drop (snd info + 1) ?ms) = []"
      unfolding filter_empty_conv by blast
    then have "map snd (attributed ?ms k (snd info)) = []"
      by (simp only: attributed_messages)
    then have "attributed ?ms k (snd info) = []" by simp
    with Some show ?thesis by (simp add: subagentGroupsOf_lookup)
  qed
  have pr: "isProcessed ?G r" if "r \<in> set rest" for r
    using par that G1 G2 by (auto simp: isProcessed_def)
  have npa: "\<not> isProcessed ?G a"
  proof (cases "getParentToolUseId a")
    case None
    then show ?thesis by (simp add: isProcessed_def)
  next
    case (Some p)
    with pa have "p \<noteq> t1" "p \<noteq> t2" by auto
    from Gother[OF this] Some show ?thesis by (simp add: isProcessed_def)
  qed
  have zero: "0 \<notin> set ?P" using npa by (simp add: processedIndices_iff)
  have later: "\<forall>im \<in> set (enumerate (Suc 0) rest). fst im \<in> set ?P"
  proof
    fix im assume im: "im \<in> set (enumerate (Suc 0) rest)"
    obtain j x where jx: "im = (j, x)" by (cases im)
    with im have j: "Suc 0 \<le> j" "j < length rest + Suc 0" "rest ! (j - Suc 0) = x"
      unfolding in_set_enumerate_eq by simp_all
    then have "?ms ! j = rest ! (j - Suc 0)" "j - Suc 0 < length rest"
      by (simp_all add: nth_Cons')
    then have "isProcessed ?G (?ms ! j)" using pr[of "rest ! (j - Suc 0)"] by simp
    with j jx show "fst im \<in> set ?P" by (simp add: processedIndices_iff)
  qed
  have idx: "map_of (indexToTaskIds ?st) 0 = Some [t1, t2]"
    using ids by (simp add: indexToTaskIds_lookup)
  have add: "fold (addTaskGroup ?G) [t1, t2] ([], []) = ([t1, t2], [Subagent (g t1), Subagent (g t2)])"
    using G1 G2 ne by (simp add: addTaskGroup_def)
  have first: "buildIntermediate ?P (indexToTaskIds ?st) ?G (0, a) ([], []) =
               ([t1, t2], [Subagent (g t1), Subagent (g t2)])"
    using zero idx add G1 by (simp add: buildIntermediate_def Let_def)
  have "enumerate 0 ?ms = (0, a) # enumerate (Suc 0) rest" by simp
  then have mid: "thirdPass ?ms ?st ?G = [Subagent (g t1), Subagent (g t2)]"
    unfolding thirdPass_def
    by (simp add: first fold_buildIntermediate_skip[OF later])
  have "groupMessages ?ms = [Subagent (g t1), Subagent (g t2)]"
    using mid by (simp add: groupMessages_def subagentGroupsOf_def Let_def fourthPass_two_groups)
  then show ?thesis unfolding g_def att by blast
qed
lemma getParentToolUseId_Some_iff:
  "k \<noteq> [] \<Longrightarrow> getParentToolUseId m = Some k \<longleftrightarrow> parent_tool_use_id m = Some k"
  by (cases "parent_tool_use_id m") (auto simp: getParentToolUseId_def)

text \<open>
  Claim C5. An assistant message whose Task calls have the ids \<open>t1\<close> and \<open>t2\<close>, followed
  by three messages with parent \<open>t1\<close> and two with parent \<open>t2\<close> in any interleaving, is
  grouped into exactly two sub-agent groups, for \<open>t1\<close> and for \<open>t2\<close>; each holds its own
  messages in their original order, and the output has no other node. The spawning
  message is itself no sub-agent message of \<open>t1\<close> or \<open>t2\<close>, and the five messages do not
  issue Task calls with these two ids again.
\<close>

theorem groupMessages_parallel_spawns:
  assumes "extractTaskToolUseIds a = [''t1'', ''t2'']"
    and "parent_tool_use_id a \<noteq> Some ''t1''" and "parent_tool_use_id a \<noteq> Some ''t2''"
    and "\<forall>r \<in> set rest. parent_tool_use_id r = Some ''t1'' \<or> parent_tool_use_id r = Some ''t2''"
    and "length (filter (\<lambda>r. parent_tool_use_id r = Some ''t1'') rest) = 3"
    and "length (filter (\<lambda>r. parent_tool_use_id r = Some ''t2'') rest) = 2"
    and "\<forall>r \<in> set rest. ''t1'' \<notin> set (extractTaskToolUseIds r) \<and>
                          ''t2'' \<notin> set (extractTaskToolUseIds r)"
  shows "\<exists>g1 g2.
     groupMessages (a # rest) = [Subagent g1, Subagent g2] \<and>
     taskToolUseId g1 = ''t1'' \<and> taskMessage g1 = a \<and>
     subagentMessages g1 = filter (\<lambda>r. parent_tool_use_id r = Some ''t1'') rest \<and>
     taskToolUseId g2 = ''t2'' \<and> taskMessage g2 = a \<and>
     subagentMessages g2 = filter (\<lambda>r. parent_tool_use_id r = Some ''t2'') rest"
proof -
  have p: "getParentToolUseId m = Some ''t1'' \<longleftrightarrow> parent_tool_use_id m = Some ''t1''"
    "getParentToolUseId m = Some ''t2'' \<longleftrightarrow> parent_tool_use_id m = Some ''t2''" for m
    by (simp_all add: getParentToolUseId_Some_iff)
  have ne: "''t1'' \<noteq> ''t2''" by simp
  have ex1: "filter (\<lambda>r. getParentToolUseId r = Some ''t1'') rest \<noteq> []"
    using assms(5) unfolding p by auto
  have ex2: "filter (\<lambda>r. getParentToolUseId r = Some ''t2'') rest \<noteq> []"
    using assms(6) unfolding p by auto
  from parallel_spawn_groups[OF assms(1) ne _ _ _ assms(7) ex1 ex2] assms(2,3,4)
  obtain e1 e2 where
    "groupMessages (a # rest) =
       [Subagent \<lparr> group_id = ''t1'', taskMessage = a, taskToolUseId = ''t1'',
                   subagentMessages = filter (\<lambda>r. getParentToolUseId r = Some ''t1'') rest,
                   startIndex = 0, endIndex = e1,
                   subagentType = map_of (taskSubagentTypes (firstPass (a # rest))) ''t1'' \<rparr>,
        Subagent \<lparr> group_id = ''t2'', taskMessage = a, taskToolUseId = ''t2'',
                   subagentMessages = filter (\<lambda>r. getParentToolUseId r = Some ''t2'') rest,
                   startIndex = 0, endIndex = e2,
                   subagentType = map_of (taskSubagentTypes (firstPass (a # rest))) ''t2'' \<rparr>]"
    unfolding p by blast
  then show ?thesis unfolding p by simp
qed

lemma interleaved_parents:
  "extractTaskToolUseIds parallelSpawn = [''t1'', ''t2'']"
  "parent_tool_use_id parallelSpawn \<noteq> Some ''t1''"
  "parent_tool_use_id parallelSpawn \<noteq> Some ''t2''"
  "\<forall>r \<in> set interleaved. parent_tool_use_id r = Some ''t1'' \<or> parent_tool_use_id r = Some ''t2''"
  "\<forall>r \<in> set interleaved. ''t1'' \<notin> set (extractTaskToolUseIds r) \<and>
                             ''t2'' \<notin> set (extractTaskToolUseIds r)"
  by code_simp+

lemma interleaved_filters:
  "filter (\<lambda>r. parent_tool_use_id r = Some ''t1'') interleaved =
     [childOf ''t1'' ''a1'', childOf ''t1'' ''a2'', childOf ''t1'' ''a3'']"
  "filter (\<lambda>r. parent_tool_use_id r = Some ''t2'') interleaved =
     [childOf ''t2'' ''b1'', childOf ''t2'' ''b2'']"
  by code_simp+

theorem groupMessages_parallel_spawns_witness:
  "extractTaskToolUseIds parallelSpawn = [''t1'', ''t2''] \<and>
   filter (\<lambda>r. parent_tool_use_id r = Some ''t1'') interleaved =
     [childOf ''t1'' ''a1'', childOf ''t1'' ''a2'', childOf ''t1'' ''a3''] \<and>
   filter (\<lambda>r. parent_tool_use_id r = Some ''t2'') interleaved =
     [childOf ''t2'' ''b1'', childOf ''t2'' ''b2''] \<and>
   (\<exists>g1 g2.
      groupMessages (parallelSpawn # interleaved) = [Subagent g1, Subagent g2] \<and>
      taskToolUseId g1 = ''t1'' \<and> taskMessage g1 = parallelSpawn \<and>
      subagentMessages g1 = [childOf ''t1'' ''a1'', childOf ''t1'' ''a2'', childOf ''t1'' ''a3''] \<and>
      taskToolUseId g2 = ''t2'' \<and> taskMessage g2 = parallelSpawn \<and>
      subagentMessages g2 = [childOf ''t2'' ''b1'', childOf ''t2'' ''b2''])"
proof -
  have l1: "length (filter (\<lambda>r. parent_tool_use_id r = Some ''t1'') interleaved) = 3"
    and l2: "length (filter (\<lambda>r. parent_tool_use_id r = Some ''t2'') interleaved) = 2"
    by (simp_all only: interleaved_filters) simp_all
  from groupMessages_parallel_spawns[OF interleaved_parents(1,2,3,4) l1 l2 interleaved_parents(5)]
  show ?thesis
    unfolding interleaved_filters using interleaved_parents(1) by blast
qed

end
